theory Spec2Isabelle
  imports
    Complex_Main
    "HOL-Library.Char_ord"
    "HOL-Library.List_Lexorder"
    "HOL-Library.AList"
    "HOL-Library.Multiset"
begin

section \<open>Python primitives used by the automation engine\<close>

text \<open>
  Strings are \<^typ>\<open>string\<close>; Python's \<^verbatim>\<open>sep.join(parts)\<close> is \<open>join\<close>,
  \<^verbatim>\<open>str(n)\<close> on an \<^verbatim>\<open>int\<close> is \<open>str_int\<close> (decimal, a leading minus sign
  for negatives), and truthiness of an optional string or list is written out.
\<close>

fun join :: "string \<Rightarrow> string list \<Rightarrow> string" where
  "join sep [] = []"
| "join sep [x] = x"
| "join sep (x # y # ys) = x @ sep @ join sep (y # ys)"

definition digit_char :: "nat \<Rightarrow> char" where
  "digit_char d = ''0123456789'' ! d"

function str_nat :: "nat \<Rightarrow> string" where
  "str_nat n = (if n < 10 then [digit_char n] else str_nat (n div 10) @ [digit_char (n mod 10)])"
  by pat_completeness auto
termination
  by (relation "measure (\<lambda>n. n)") auto

declare str_nat.simps [simp del]

definition str_int :: "int \<Rightarrow> string" where
  "str_int i = (if i < 0 then ''-'' @ str_nat (nat (- i)) else str_nat (nat i))"

definition truthy_str :: "string option \<Rightarrow> bool" where
  "truthy_str s = (case s of None \<Rightarrow> False | Some v \<Rightarrow> v \<noteq> [])"

definition truthy_list :: "'a list option \<Rightarrow> bool" where
  "truthy_list xs = (case xs of None \<Rightarrow> False | Some v \<Rightarrow> v \<noteq> [])"

text \<open>
  \<^verbatim>\<open>needle in content\<close> on strings, and \<^verbatim>\<open>str.lower()\<close>. A character is a code
  point from 0 to 255; on that range \<^verbatim>\<open>lower\<close> moves the capitals \<open>A\<close> to \<open>Z\<close> and
  0xC0 to 0xDE (without the sign 0xD7) up by 32 and leaves every other character alone.
  A text with a code point above 255 is outside the type.
\<close>

fun contains :: "string \<Rightarrow> string \<Rightarrow> bool" where
  "contains needle [] = (needle = [])"
| "contains needle (c # cs) = (take (length needle) (c # cs) = needle \<or> contains needle cs)"

definition lower_char :: "char \<Rightarrow> char" where
  "lower_char c =
     (if (CHR ''A'' \<le> c \<and> c \<le> CHR ''Z'')
         \<or> (CHR 0xC0 \<le> c \<and> c \<le> CHR 0xDE \<and> c \<noteq> CHR 0xD7)
      then char_of (of_char c + (32::nat)) else c)"

definition lower :: "string \<Rightarrow> string" where
  "lower s = map lower_char s"

section \<open>jurisdiction\_registry.py\<close>

subsection \<open>Court profiles\<close>

datatype CourtLevel =
  STATE_FAMILY
| STATE_DISTRICT
| STATE_SUPREME
| FEDERAL_DISTRICT
| FEDERAL_CIRCUIT
| FEDERAL_SUPREME

text \<open>
  The \<^verbatim>\<open>float\<close> fields are rationals; the only operations on them are the test
  against zero and \<^verbatim>\<open>str\<close>, which the validator takes as the parameter \<open>str_float\<close>.
\<close>

record FormattingRules =
  font_family :: string
  font_size :: int
  line_spacing :: rat
  margin_top :: rat
  margin_bottom :: rat
  margin_left :: rat
  margin_right :: rat
  page_number_location :: string

record CitationRules =
  case_citation_format :: string
  statute_citation_format :: string
  pin_cite_required :: bool
  short_form_rules :: "string \<rightharpoonup> string"

record FilingRules =
  max_pages :: "int option"
  certificate_of_service_required :: bool
  verification_required :: bool
  exhibits_must_be_labeled :: bool
  table_of_contents_required_pages :: "int option"
  table_of_authorities_required :: bool

text \<open>The values of the open \<^verbatim>\<open>special_rules\<close> mapping, with Python's truthiness.\<close>

datatype py_value = PyNone | PyBool bool | PyInt int | PyStr string

fun truthy :: "py_value \<Rightarrow> bool" where
  "truthy PyNone = False"
| "truthy (PyBool b) = b"
| "truthy (PyInt i) = (i \<noteq> 0)"
| "truthy (PyStr s) = (s \<noteq> [])"

record CourtProfile =
  court_id :: string
  court_name :: string
  court_level :: CourtLevel
  jurisdiction :: string
  formatting :: FormattingRules
  citations :: CitationRules
  filing :: FilingRules
  special_rules :: "string \<rightharpoonup> py_value"

text \<open>\<^verbatim>\<open>JurisdictionRegistry.profiles\<close>, a dict from court id to profile.\<close>

type_synonym JurisdictionRegistry = "string \<rightharpoonup> CourtProfile"

definition register_profile :: "JurisdictionRegistry \<Rightarrow> CourtProfile \<Rightarrow> JurisdictionRegistry" where
  "register_profile reg profile = reg(court_id profile \<mapsto> profile)"

definition get_profile :: "JurisdictionRegistry \<Rightarrow> string \<Rightarrow> CourtProfile option" where
  "get_profile reg cid = reg cid"

text \<open>The field defaults of the dataclasses.\<close>

definition default_formatting :: FormattingRules where
  "default_formatting =
     \<lparr>font_family = ''Times New Roman'', font_size = 12, line_spacing = 2,
      margin_top = 1, margin_bottom = 1, margin_left = 1, margin_right = 1,
      page_number_location = ''bottom center''\<rparr>"

definition default_citations :: CitationRules where
  "default_citations =
     \<lparr>case_citation_format = ''Bluebook'', statute_citation_format = ''Bluebook'',
      pin_cite_required = True, short_form_rules = Map.empty\<rparr>"

definition default_filing :: FilingRules where
  "default_filing =
     \<lparr>max_pages = None, certificate_of_service_required = True,
      verification_required = False, exhibits_must_be_labeled = True,
      table_of_contents_required_pages = Some 25, table_of_authorities_required = False\<rparr>"

definition hi_family :: CourtProfile where
  "hi_family =
     \<lparr>court_id = ''hi_family'',
      court_name = ''Hawaii Family Court'',
      court_level = STATE_FAMILY,
      jurisdiction = ''Hawaii'',
      formatting = default_formatting,
      citations = default_citations\<lparr>statute_citation_format := ''Hawaii Revised Statutes''\<rparr>,
      filing = default_filing\<lparr>verification_required := True\<rparr>,
      special_rules =
        [''caption_format'' \<mapsto> PyStr ''hawaii_standard'',
         ''signature_block_required'' \<mapsto> PyBool True,
         ''pro_se_notice_required'' \<mapsto> PyBool True]\<rparr>"

definition cand :: CourtProfile where
  "cand =
     \<lparr>court_id = ''cand'',
      court_name = ''United States District Court for the Northern District of California'',
      court_level = FEDERAL_DISTRICT,
      jurisdiction = ''California (Northern District)'',
      formatting = default_formatting,
      citations = default_citations\<lparr>statute_citation_format := ''U.S.C.''\<rparr>,
      filing = default_filing\<lparr>max_pages := Some 25, table_of_authorities_required := True\<rparr>,
      special_rules =
        [''ecf_filing_required'' \<mapsto> PyBool True,
         ''local_rules_apply'' \<mapsto> PyStr ''CAND Local Rules'',
         ''civil_lr_compliance'' \<mapsto> PyBool True]\<rparr>"

definition ca9 :: CourtProfile where
  "ca9 =
     \<lparr>court_id = ''ca9'',
      court_name = ''United States Court of Appeals for the Ninth Circuit'',
      court_level = FEDERAL_CIRCUIT,
      jurisdiction = ''Ninth Circuit'',
      formatting = default_formatting\<lparr>font_family := ''Century Schoolbook'', font_size := 14\<rparr>,
      citations = default_citations\<lparr>statute_citation_format := ''U.S.C.''\<rparr>,
      filing = default_filing\<lparr>max_pages := Some 14000,
                 table_of_contents_required_pages := Some 1,
                 table_of_authorities_required := True\<rparr>,
      special_rules =
        [''word_count_limit'' \<mapsto> PyInt 14000,
         ''certificate_of_compliance_required'' \<mapsto> PyBool True,
         ''separate_volume_for_excerpts'' \<mapsto> PyBool True]\<rparr>"

text \<open>\<^verbatim>\<open>JurisdictionRegistry()\<close>: the empty dict after \<^verbatim>\<open>_load_default_profiles\<close>.\<close>

definition load_default_profiles :: JurisdictionRegistry where
  "load_default_profiles =
     register_profile (register_profile (register_profile Map.empty hi_family) cand) ca9"

subsection \<open>The compliance validator\<close>

definition check_formatting :: "(rat \<Rightarrow> string) \<Rightarrow> string \<Rightarrow> FormattingRules \<Rightarrow> string list" where
  "check_formatting str_float content rules =
     (if font_family rules \<noteq> []
         \<and> \<not> contains ([CHR 0x5C] @ ''setmainfont{'' @ font_family rules @ ''}'') content
      then [''Required font '' @ [CHR 0x27] @ font_family rules @ [CHR 0x27] @ '' not specified'']
      else [])
     @ (if line_spacing rules \<noteq> 0
           \<and> \<not> contains ([CHR 0x5C] @ str_float (line_spacing rules)) content
        then [''Required line spacing '' @ str_float (line_spacing rules) @ '' not set'']
        else [])"

definition check_filing_rules :: "string \<Rightarrow> FilingRules \<Rightarrow> string list" where
  "check_filing_rules content rules =
     (if certificate_of_service_required rules
         \<and> \<not> contains ''certificate of service'' (lower content)
      then [''Certificate of Service required but not found''] else [])
     @ (if verification_required rules \<and> \<not> contains ''verification'' (lower content)
        then [''Verification required but not found''] else [])
     @ (if table_of_authorities_required rules
           \<and> \<not> contains ''table of authorities'' (lower content)
        then [''Table of Authorities required but not found''] else [])"

definition rule_set :: "(string \<rightharpoonup> py_value) \<Rightarrow> string \<Rightarrow> bool" where
  "rule_set rules key = (case rules key of None \<Rightarrow> False | Some v \<Rightarrow> truthy v)"

definition check_special_rules :: "string \<Rightarrow> (string \<rightharpoonup> py_value) \<Rightarrow> string list" where
  "check_special_rules content rules =
     (if rule_set rules ''pro_se_notice_required'' \<and> \<not> contains ''pro se'' (lower content)
      then [''Pro se notice may be required for self-represented litigants''] else [])
     @ (if rule_set rules ''certificate_of_compliance_required''
           \<and> \<not> contains ''certificate of compliance'' (lower content)
        then [''Certificate of Compliance required but not found''] else [])"

text \<open>
  The file system as the validator sees it: a path is absent, or it exists and
  \<^verbatim>\<open>read_text\<close> yields its text, or it exists and \<^verbatim>\<open>read_text\<close> raises (a directory,
  no permission, undecodable bytes). Every access is recorded in a trace.
\<close>

datatype fs_entry = FileText string | Unreadable

type_synonym filesystem = "string \<rightharpoonup> fs_entry"

datatype io_event = PathExists string | ReadText string

datatype io_error = OSError string

text \<open>The three additive checks, run on the text that was read.\<close>

definition run_checks :: "(rat \<Rightarrow> string) \<Rightarrow> string \<Rightarrow> CourtProfile \<Rightarrow> bool \<times> string list" where
  "run_checks str_float content profile =
     (let violations = check_formatting str_float content (formatting profile)
                       @ check_filing_rules content (filing profile)
                       @ check_special_rules content (special_rules profile)
      in (length violations = 0, violations))"

text \<open>
  \<^verbatim>\<open>ComplianceValidator.validate_document\<close>. The result is the raised error or the
  returned pair, together with the trace of file accesses made.
\<close>

definition compliance_validate_document ::
  "(rat \<Rightarrow> string) \<Rightarrow> JurisdictionRegistry \<Rightarrow> filesystem \<Rightarrow> string \<Rightarrow> string
     \<Rightarrow> (io_error + bool \<times> string list) \<times> io_event list" where
  "compliance_validate_document str_float reg fs document_path cid =
     (case get_profile reg cid of
        None \<Rightarrow> (Inr (False, [''Unknown court ID: '' @ cid]), [])
      | Some profile \<Rightarrow>
          (case fs document_path of
             None \<Rightarrow>
               (Inr (run_checks str_float [] profile), [PathExists document_path])
           | Some Unreadable \<Rightarrow>
               (Inl (OSError document_path), [PathExists document_path, ReadText document_path])
           | Some (FileText content) \<Rightarrow>
               (Inr (run_checks str_float content profile),
                [PathExists document_path, ReadText document_path])))"

text \<open>A file system with one motion on disk, and a rendering of the one spacing in use.\<close>

definition motion_fs :: filesystem where
  "motion_fs = [''motion.tex'' \<mapsto> FileText ''Certificate of Service. Verification. Pro se.'']"

definition str_spacing :: "rat \<Rightarrow> string" where
  "str_spacing x = (if x = 2 then ''2.0'' else ''1.0'')"

section \<open>evidence\_aware\_drafter.py\<close>

subsection \<open>Data model\<close>

record EvidenceSource =
  source_id :: string
  description :: string
  file_path :: "string option"
  page_numbers :: "int list option"
  exhibit_number :: "string option"

text \<open>The field \<^verbatim>\<open>Citation.text\<close> is named \<open>ctext\<close>: \<open>text\<close> is a keyword.\<close>

record Citation =
  ctext :: string
  evidence_ids :: "string list"
  location :: int

text \<open>\<^verbatim>\<open>EvidenceRegistry.evidence\<close>, a dict from source id to evidence source.\<close>

type_synonym EvidenceRegistry = "string \<rightharpoonup> EvidenceSource"

definition register :: "EvidenceRegistry \<Rightarrow> EvidenceSource \<Rightarrow> EvidenceRegistry" where
  "register reg evidence = reg(source_id evidence \<mapsto> evidence)"

definition get :: "EvidenceRegistry \<Rightarrow> string \<Rightarrow> EvidenceSource option" where
  "get reg sid = reg sid"

definition validate_citations :: "EvidenceRegistry \<Rightarrow> string list \<Rightarrow> bool \<times> string list" where
  "validate_citations reg citation_ids =
     (let missing = filter (\<lambda>cid. reg cid = None) citation_ids
      in (length missing = 0, missing))"

record EvidenceAwareDrafter =
  registry :: EvidenceRegistry
  citations :: "Citation list"

text \<open>
  Both failures of \<^verbatim>\<open>draft_paragraph\<close> are a \<^verbatim>\<open>ValueError\<close> in the source, told
  apart by their message. \<open>MissingEvidence p\<close> is
  \<^verbatim>\<open>"Evidence required but not provided for: {content[:50]}..."\<close> and
  \<open>UnknownEvidence missing p\<close> is
  \<^verbatim>\<open>"Invalid evidence IDs: {missing}. Content: {content[:50]}..."\<close>; the payloads are
  the values interpolated into the message (\<open>p\<close> the 50-character preview).
\<close>

datatype drafter_error =
  MissingEvidence string
| UnknownEvidence "string list" string

subsection \<open>Citation formatting\<close>

text \<open>The body of the loop of \<^verbatim>\<open>_format_citations\<close> for one resolved evidence source.\<close>

definition page_part :: "int list \<Rightarrow> string" where
  "page_part ps =
     (if length ps = 1 then ''p. '' @ str_int (hd ps)
      else ''pp. '' @ str_int (hd ps) @ ''-'' @ str_int (last ps))"

definition cite_parts :: "EvidenceSource \<Rightarrow> string list" where
  "cite_parts evidence =
     (if truthy_str (exhibit_number evidence)
      then [''Ex. '' @ the (exhibit_number evidence)] else [])
     @ (if truthy_list (page_numbers evidence)
        then [page_part (the (page_numbers evidence))] else [])"

text \<open>The loop over the evidence ids: an id the registry does not resolve adds nothing.\<close>

fun citation_fragments :: "EvidenceRegistry \<Rightarrow> string list \<Rightarrow> string list" where
  "citation_fragments reg [] = []"
| "citation_fragments reg (eid # eids) =
     (case get reg eid of
        None \<Rightarrow> citation_fragments reg eids
      | Some evidence \<Rightarrow> join '', '' (cite_parts evidence) # citation_fragments reg eids)"

definition format_citations :: "EvidenceRegistry \<Rightarrow> string list \<Rightarrow> string" where
  "format_citations reg eids =
     (if eids = [] then ''''
      else ''('' @ join ''; '' (citation_fragments reg eids) @ '')'')"

subsection \<open>Drafting a paragraph\<close>

text \<open>
  The result pairs what the call returns or raises with the drafter afterwards; a raise
  happens before the append, so the drafter is returned as it was.
\<close>

definition draft_paragraph ::
  "EvidenceAwareDrafter \<Rightarrow> string \<Rightarrow> string list \<Rightarrow> bool
     \<Rightarrow> (drafter_error + string) \<times> EvidenceAwareDrafter" where
  "draft_paragraph d content eids require_citation =
     (if require_citation \<and> eids = [] then
        (Inl (MissingEvidence (take 50 content)), d)
      else if require_citation \<and> \<not> fst (validate_citations (registry d) eids) then
        (Inl (UnknownEvidence (snd (validate_citations (registry d) eids)) (take 50 content)), d)
      else
        (Inr (content @ '' '' @ format_citations (registry d) eids),
         d\<lparr>citations := citations d
              @ [\<lparr>ctext = content, evidence_ids = eids, location = int (length content)\<rparr>]\<rparr>))"

subsection \<open>The example of the module's main block\<close>

definition email_20231015 :: EvidenceSource where
  "email_20231015 =
     \<lparr>source_id = ''email_20231015'',
      description = ''Email from Respondent dated October 15, 2023'',
      file_path = Some ''evidence/emails/2023-10-15.pdf'',
      page_numbers = Some [1, 2],
      exhibit_number = Some ''A''\<rparr>"

definition text_20231020 :: EvidenceSource where
  "text_20231020 =
     \<lparr>source_id = ''text_20231020'',
      description = ''Text message thread from October 20, 2023'',
      file_path = Some ''evidence/texts/2023-10-20.pdf'',
      page_numbers = Some [1],
      exhibit_number = Some ''B''\<rparr>"

definition example_registry :: EvidenceRegistry where
  "example_registry = register (register Map.empty email_20231015) text_20231020"

definition example_drafter :: EvidenceAwareDrafter where
  "example_drafter = \<lparr>registry = example_registry, citations = []\<rparr>"

text \<open>Evidence registered with a description only: no exhibit label, no pages.\<close>

definition bare_source :: "string \<Rightarrow> EvidenceSource" where
  "bare_source sid =
     \<lparr>source_id = sid,
      description = ''Handwritten note'',
      file_path = None,
      page_numbers = None,
      exhibit_number = None\<rparr>"

definition bare_drafter :: EvidenceAwareDrafter where
  "bare_drafter =
     \<lparr>registry = register (register Map.empty (bare_source ''note_1'')) (bare_source ''note_2''),
      citations = []\<rparr>"

subsection \<open>Claim patterns\<close>

text \<open>
  \<^verbatim>\<open>re.finditer\<close> is the standard library's. The four claim patterns use literals,
  the classes \<^verbatim>\<open>\w\<close>, \<^verbatim>\<open>\d\<close>, \<^verbatim>\<open>\s\<close> and \<^verbatim>\<open>[\d,]\<close> under \<^verbatim>\<open>+\<close> or
  \<^verbatim>\<open>{4}\<close>, and one alternation of literals; they are given as lists of such items and
  matched the way the backtracking engine does: \<^verbatim>\<open>+\<close> is greedy and gives characters
  back one at a time, alternatives are tried in order, and the scan resumes where the
  last match ended. Every claim pattern consumes at least one character, so the engine's
  special treatment of empty matches does not arise.

  A character is a code point from 0 to 255. The patterns are \<^verbatim>\<open>str\<close> patterns, so the
  classes are the Unicode ones, here on that range: \<^verbatim>\<open>\w\<close> holds the ASCII letters,
  digits and underscore and the Latin-1 letters and numeric signs (0xAA, 0xB2, 0xB3, 0xB5,
  0xB9, 0xBA, 0xBC to 0xBE, 0xC0 to 0xFF without 0xD7 and 0xF7), \<^verbatim>\<open>\d\<close> the decimal
  digits \<open>0\<close> to \<open>9\<close>, and \<^verbatim>\<open>\s\<close> the code points 0x09 to 0x0D, 0x1C to 0x20, 0x85
  and 0xA0.
\<close>

datatype char_class = Word | Digit | Space | DigitOrComma

definition is_digit :: "char \<Rightarrow> bool" where
  "is_digit c = (CHR ''0'' \<le> c \<and> c \<le> CHR ''9'')"

fun in_class :: "char_class \<Rightarrow> char \<Rightarrow> bool" where
  "in_class Word c =
     (is_digit c \<or> (CHR ''A'' \<le> c \<and> c \<le> CHR ''Z'') \<or> c = CHR ''_''
      \<or> (CHR ''a'' \<le> c \<and> c \<le> CHR ''z'')
      \<or> c = CHR 0xAA \<or> (CHR 0xB2 \<le> c \<and> c \<le> CHR 0xB3) \<or> c = CHR 0xB5
      \<or> (CHR 0xB9 \<le> c \<and> c \<le> CHR 0xBA) \<or> (CHR 0xBC \<le> c \<and> c \<le> CHR 0xBE)
      \<or> (CHR 0xC0 \<le> c \<and> c \<le> CHR 0xD6) \<or> (CHR 0xD8 \<le> c \<and> c \<le> CHR 0xF6)
      \<or> CHR 0xF8 \<le> c)"
| "in_class Digit c = is_digit c"
| "in_class Space c =
     ((CHR 0x09 \<le> c \<and> c \<le> CHR 0x0D) \<or> (CHR 0x1C \<le> c \<and> c \<le> CHR 0x20)
      \<or> c = CHR 0x85 \<or> c = CHR 0xA0)"
| "in_class DigitOrComma c = (is_digit c \<or> c = CHR '','')"

datatype regex_item =
  Lit string
| Plus char_class
| Rep char_class nat
| Alt "string list"

type_synonym pattern = "regex_item list"

fun first_some :: "('a \<Rightarrow> 'b option) \<Rightarrow> 'a list \<Rightarrow> 'b option" where
  "first_some f [] = None"
| "first_some f (x # xs) = (case f x of Some y \<Rightarrow> Some y | None \<Rightarrow> first_some f xs)"

text \<open>\<open>match_here p s\<close> is the length of the match of \<open>p\<close> that starts at the head of \<open>s\<close>.\<close>

fun match_here :: "pattern \<Rightarrow> string \<Rightarrow> nat option" where
  "match_here [] s = Some 0"
| "match_here (Lit l # r) s =
     (if take (length l) s = l
      then map_option (\<lambda>n. length l + n) (match_here r (drop (length l) s)) else None)"
| "match_here (Rep c k # r) s =
     (if k \<le> length s \<and> list_all (in_class c) (take k s)
      then map_option (\<lambda>n. k + n) (match_here r (drop k s)) else None)"
| "match_here (Plus c # r) s =
     first_some (\<lambda>k. map_option (\<lambda>n. k + n) (match_here r (drop k s)))
       (rev [1 ..< Suc (length (takeWhile (in_class c) s))])"
| "match_here (Alt ls # r) s =
     first_some (\<lambda>l. if take (length l) s = l
                      then map_option (\<lambda>n. length l + n) (match_here r (drop (length l) s))
                      else None) ls"

text \<open>
  \<open>scan p pos skip s\<close> lists the matches of \<open>p\<close> in \<open>s\<close>, the rest of the document from
  offset \<open>pos\<close> on, as pairs of start offset and matched text; \<open>skip\<close> counts the
  characters still covered by the previous match.
\<close>

fun scan :: "pattern \<Rightarrow> nat \<Rightarrow> nat \<Rightarrow> string \<Rightarrow> (nat \<times> string) list" where
  "scan p pos skip [] = []"
| "scan p pos skip (c # cs) =
     (if 0 < skip then scan p (pos + 1) (skip - 1) cs
      else case match_here p (c # cs) of
             None \<Rightarrow> scan p (pos + 1) 0 cs
           | Some n \<Rightarrow> (pos, take n (c # cs)) # scan p (pos + 1) (n - 1) cs)"

definition finditer :: "pattern \<Rightarrow> string \<Rightarrow> (nat \<times> string) list" where
  "finditer p document = scan p 0 0 document"

definition claim_patterns :: "pattern list" where
  "claim_patterns =
     [[Lit ''Respondent '', Plus Word, Lit '' '', Alt [''did'', ''failed to'', ''refused to'']],
      [Lit ''On '', Plus Word, Plus Space, Plus Digit, Lit '','', Plus Space, Rep Digit 4],
      [Lit ''$'', Plus DigitOrComma],
      [Plus Digit, Lit '' '', Alt [''times'', ''instances'', ''occasions'']]]"

subsection \<open>Scanning a document for uncited claims\<close>

definition has_nearby_citation :: "EvidenceAwareDrafter \<Rightarrow> nat \<Rightarrow> bool" where
  "has_nearby_citation d pos = list_ex (\<lambda>c. \<bar>location c - int pos\<bar> < 200) (citations d)"

text \<open>The matches in scan order (pattern by pattern) that have no citation nearby.\<close>

definition uncited_matches :: "EvidenceAwareDrafter \<Rightarrow> string \<Rightarrow> (nat \<times> string) list" where
  "uncited_matches d document =
     concat (map (\<lambda>p. filter (\<lambda>m. \<not> has_nearby_citation d (fst m)) (finditer p document))
               claim_patterns)"

text \<open>\<^verbatim>\<open>EvidenceAwareDrafter.validate_document\<close>.\<close>

definition drafter_validate_document :: "EvidenceAwareDrafter \<Rightarrow> string \<Rightarrow> bool \<times> string list" where
  "drafter_validate_document d document =
     (let uncited_claims = map snd (uncited_matches d document)
      in (length uncited_claims = 0, uncited_claims))"

subsection \<open>The exhibit list\<close>

text \<open>
  The dict \<^verbatim>\<open>exhibits\<close> is an association list in insertion order; assigning to a
  key replaces its value in place or appends the new key, as \<^const>\<open>AList.update\<close> does.
\<close>

type_synonym exhibits = "(string \<times> EvidenceSource) list"

fun collect_ids :: "EvidenceRegistry \<Rightarrow> string list \<Rightarrow> exhibits \<Rightarrow> exhibits" where
  "collect_ids reg [] exhibits = exhibits"
| "collect_ids reg (eid # eids) exhibits =
     (case get reg eid of
        None \<Rightarrow> collect_ids reg eids exhibits
      | Some evidence \<Rightarrow>
          if truthy_str (exhibit_number evidence)
          then collect_ids reg eids
                 (AList.update (the (exhibit_number evidence)) evidence exhibits)
          else collect_ids reg eids exhibits)"

fun collect_exhibits :: "EvidenceRegistry \<Rightarrow> Citation list \<Rightarrow> exhibits \<Rightarrow> exhibits" where
  "collect_exhibits reg [] exhibits = exhibits"
| "collect_exhibits reg (citation # cs) exhibits =
     collect_exhibits reg cs (collect_ids reg (evidence_ids citation) exhibits)"

datatype py_error = KeyError string

definition exhibit_item :: "string \<Rightarrow> EvidenceSource \<Rightarrow> string" where
  "exhibit_item ex_num evidence =
     ''  '' @ [CHR 0x5C] @ ''item Exhibit '' @ ex_num @ '': '' @ description evidence"

fun exhibit_items :: "exhibits \<Rightarrow> string list \<Rightarrow> py_error + string list" where
  "exhibit_items exhibits [] = Inr []"
| "exhibit_items exhibits (ex_num # ks) =
     (case map_of exhibits ex_num of
        None \<Rightarrow> Inl (KeyError ex_num)
      | Some evidence \<Rightarrow>
          (case exhibit_items exhibits ks of
             Inl err \<Rightarrow> Inl err
           | Inr items \<Rightarrow> Inr (exhibit_item ex_num evidence # items)))"

definition exhibit_header :: string where
  "exhibit_header =
     [CHR 0x5C] @ ''section*{Exhibits}'' @ [CHR 0x0A] @ [CHR 0x5C] @ ''begin{enumerate}''"

definition exhibit_footer :: string where
  "exhibit_footer = [CHR 0x5C] @ ''end{enumerate}''"

definition generate_exhibit_list :: "EvidenceAwareDrafter \<Rightarrow> py_error + string" where
  "generate_exhibit_list d =
     (let exhibits = collect_exhibits (registry d) (citations d) []
      in case exhibit_items exhibits (sort (map fst exhibits)) of
           Inl err \<Rightarrow> Inl err
         | Inr items \<Rightarrow> Inr (join [CHR 0x0A] ([exhibit_header] @ items @ [exhibit_footer])))"

text \<open>
  A drafter with one recorded citation at location 10, and a document of 514 characters
  with a money amount at offset 60 and another at offset 510.
\<close>

definition noted_drafter :: EvidenceAwareDrafter where
  "noted_drafter =
     \<lparr>registry = example_registry,
      citations = [\<lparr>ctext = ''Paid late.'', evidence_ids = [''email_20231015''], location = 10\<rparr>]\<rparr>"

definition padded_document :: string where
  "padded_document =
     replicate 60 (CHR ''x'') @ ''$500x'' @ replicate 445 (CHR ''x'') @ ''$900''"

text \<open>Two sources filed under the same exhibit label, cited in either order.\<close>

definition twin_first :: EvidenceSource where
  "twin_first =
     \<lparr>source_id = ''letter_1'', description = ''Letter of March 3'',
      file_path = None, page_numbers = None, exhibit_number = Some ''A''\<rparr>"

definition twin_second :: EvidenceSource where
  "twin_second =
     \<lparr>source_id = ''letter_2'', description = ''Letter of April 9'',
      file_path = None, page_numbers = None, exhibit_number = Some ''A''\<rparr>"

definition twin_registry :: EvidenceRegistry where
  "twin_registry = register (register Map.empty twin_first) twin_second"

definition cites :: "string \<Rightarrow> Citation" where
  "cites eid = \<lparr>ctext = ''Respondent wrote.'', evidence_ids = [eid], location = 17\<rparr>"

text \<open>Two histories over the example registry that cite the same evidence in different order.\<close>

definition history_a :: EvidenceAwareDrafter where
  "history_a =
     \<lparr>registry = example_registry,
      citations = [cites ''email_20231015'', cites ''text_20231020'', cites ''email_20231015'']\<rparr>"

definition history_b :: EvidenceAwareDrafter where
  "history_b =
     \<lparr>registry = example_registry,
      citations = [cites ''text_20231020'', cites ''email_20231015'', cites ''email_20231015'']\<rparr>"

subsection \<open>What a drafting history cites\<close>

text \<open>
  The pairs of exhibit label and evidence source that the recorded citations resolve to:
  one pair for each cited id that the registry knows and that carries a non-empty label.
  This is the content of the exhibit list, before de-duplication and sorting.
\<close>

definition labelled :: "EvidenceRegistry \<Rightarrow> string list \<Rightarrow> (string \<times> EvidenceSource) list" where
  "labelled reg ids =
     concat (map (\<lambda>eid. case reg eid of
                           None \<Rightarrow> []
                         | Some e \<Rightarrow> if truthy_str (exhibit_number e)
                                      then [(the (exhibit_number e), e)] else []) ids)"

definition cited_exhibits :: "EvidenceAwareDrafter \<Rightarrow> (string \<times> EvidenceSource) list" where
  "cited_exhibits d = labelled (registry d) (concat (map evidence_ids (citations d)))"

section \<open>multi\_model\_fileboss.py\<close>

subsection \<open>Models, tasks and the static tables\<close>

datatype ModelType = GPT4 | CLAUDE_3_OPUS | CLAUDE_3_SONNET | PERPLEXITY | LOCAL_LLAMA

datatype TaskType =
  LEGAL_RESEARCH
| DOCUMENT_GENERATION
| LEGAL_ANALYSIS
| EVIDENCE_REVIEW
| CITATION_CHECKING

text \<open>
  The \<^verbatim>\<open>float\<close> fields are rationals. The profile values are short decimal literals,
  pairwise either equal or far apart, so comparing the floats and comparing the decimals
  agree.
\<close>

record ModelProfile =
  model_type :: ModelType
  strengths :: "TaskType list"
  max_context :: int
  cost_per_1k_tokens :: rat
  avg_latency :: rat
  reliability :: rat

text \<open>The field \<^verbatim>\<open>TaskResult.output\<close> is named \<open>result_output\<close>: \<open>output\<close> is a keyword.\<close>

record TaskResult =
  success :: bool
  result_output :: "string option"
  model_used :: ModelType
  execution_time :: rat
  tokens_used :: int
  error :: "string option"

text \<open>\<^verbatim>\<open>_initialize_profiles\<close>: the dict has an entry for every model type.\<close>

fun profiles :: "ModelType \<Rightarrow> ModelProfile" where
  "profiles GPT4 =
     \<lparr>model_type = GPT4,
      strengths = [LEGAL_ANALYSIS, DOCUMENT_GENERATION, CITATION_CHECKING],
      max_context = 128000, cost_per_1k_tokens = 3 / 100, avg_latency = 5 / 2,
      reliability = 95 / 100\<rparr>"
| "profiles CLAUDE_3_OPUS =
     \<lparr>model_type = CLAUDE_3_OPUS,
      strengths = [LEGAL_RESEARCH, DOCUMENT_GENERATION, LEGAL_ANALYSIS],
      max_context = 200000, cost_per_1k_tokens = 15 / 1000, avg_latency = 3,
      reliability = 93 / 100\<rparr>"
| "profiles CLAUDE_3_SONNET =
     \<lparr>model_type = CLAUDE_3_SONNET,
      strengths = [EVIDENCE_REVIEW, CITATION_CHECKING],
      max_context = 200000, cost_per_1k_tokens = 3 / 1000, avg_latency = 3 / 2,
      reliability = 90 / 100\<rparr>"
| "profiles PERPLEXITY =
     \<lparr>model_type = PERPLEXITY,
      strengths = [LEGAL_RESEARCH],
      max_context = 16000, cost_per_1k_tokens = 1 / 1000, avg_latency = 2,
      reliability = 88 / 100\<rparr>"
| "profiles LOCAL_LLAMA =
     \<lparr>model_type = LOCAL_LLAMA,
      strengths = [CITATION_CHECKING, EVIDENCE_REVIEW],
      max_context = 32000, cost_per_1k_tokens = 0, avg_latency = 5,
      reliability = 75 / 100\<rparr>"

text \<open>\<^verbatim>\<open>_initialize_fallbacks\<close>: the dict has an entry for every task type.\<close>

fun fallback_chains :: "TaskType \<Rightarrow> ModelType list" where
  "fallback_chains LEGAL_RESEARCH = [PERPLEXITY, CLAUDE_3_OPUS, GPT4]"
| "fallback_chains DOCUMENT_GENERATION = [CLAUDE_3_OPUS, GPT4, CLAUDE_3_SONNET]"
| "fallback_chains LEGAL_ANALYSIS = [GPT4, CLAUDE_3_OPUS, CLAUDE_3_SONNET]"
| "fallback_chains EVIDENCE_REVIEW = [CLAUDE_3_SONNET, GPT4, LOCAL_LLAMA]"
| "fallback_chains CITATION_CHECKING = [CLAUDE_3_SONNET, LOCAL_LLAMA, GPT4]"

subsection \<open>Selecting a model\<close>

text \<open>\<^verbatim>\<open>TaskType(task_type)\<close>: the enum member with that value, or \<^verbatim>\<open>ValueError\<close>.\<close>

definition task_of_string :: "string \<Rightarrow> TaskType option" where
  "task_of_string s =
     (if s = ''legal_research'' then Some LEGAL_RESEARCH
      else if s = ''document_generation'' then Some DOCUMENT_GENERATION
      else if s = ''legal_analysis'' then Some LEGAL_ANALYSIS
      else if s = ''evidence_review'' then Some EVIDENCE_REVIEW
      else if s = ''citation_checking'' then Some CITATION_CHECKING
      else None)"

text \<open>
  \<^verbatim>\<open>min(xs, key=f)\<close> and \<^verbatim>\<open>max(xs, key=f)\<close> on a non-empty list \<open>x # xs\<close>: the
  running best is replaced only by a strictly better element, so the first of several
  equally good elements is returned.
\<close>

definition py_min :: "('a \<Rightarrow> rat) \<Rightarrow> 'a \<Rightarrow> 'a list \<Rightarrow> 'a" where
  "py_min key x xs = foldl (\<lambda>best m. if key m < key best then m else best) x xs"

definition py_max :: "('a \<Rightarrow> rat) \<Rightarrow> 'a \<Rightarrow> 'a list \<Rightarrow> 'a" where
  "py_max key x xs = foldl (\<lambda>best m. if key best < key m then m else best) x xs"

text \<open>The candidates of \<^verbatim>\<open>select_model\<close>: the task's chain after the context filter.\<close>

definition select_candidates :: "string \<Rightarrow> int option \<Rightarrow> ModelType list" where
  "select_candidates task_type context_size =
     (let task = (case task_of_string task_type of Some t \<Rightarrow> t | None \<Rightarrow> LEGAL_ANALYSIS);
          candidates = fallback_chains task
      in case context_size of
           None \<Rightarrow> candidates
         | Some n \<Rightarrow>
             if n \<noteq> 0 then filter (\<lambda>model. max_context (profiles model) \<ge> n) candidates
             else candidates)"

definition select_model :: "string \<Rightarrow> int option \<Rightarrow> string \<Rightarrow> ModelType" where
  "select_model task_type context_size priority =
     (case select_candidates task_type context_size of
        [] \<Rightarrow> GPT4
      | c # cs \<Rightarrow>
          if priority = ''cost'' then py_min (\<lambda>m. cost_per_1k_tokens (profiles m)) c cs
          else if priority = ''speed'' then py_min (\<lambda>m. avg_latency (profiles m)) c cs
          else py_max (\<lambda>m. reliability (profiles m)) c cs)"

subsection \<open>Executing with fallback\<close>

text \<open>
  The task function is opaque and may have effects: it maps a model and the state of the
  world to an outcome and the world afterwards. It returns an output, or raises an
  \<^verbatim>\<open>Exception\<close> (caught by the loop, \<^verbatim>\<open>str(e)\<close> recorded), or raises something that
  \<^verbatim>\<open>except Exception\<close> lets through. \<^verbatim>\<open>time.time()\<close> reads a clock off the world.
\<close>

datatype task_outcome = Returns string | RaisesException string | RaisesOther string

datatype propagated = Uncaught string | IndexError

fun run_chain ::
  "('w \<Rightarrow> rat) \<Rightarrow> (ModelType \<Rightarrow> 'w \<Rightarrow> task_outcome \<times> 'w) \<Rightarrow> ModelType list \<Rightarrow> ModelType list
     \<Rightarrow> TaskResult list \<Rightarrow> 'w \<Rightarrow> (propagated + TaskResult) \<times> TaskResult list \<times> 'w" where
  "run_chain clock task_fn fallback_chain [] performance_log w =
     (case fallback_chain of
        [] \<Rightarrow> (Inl IndexError, performance_log, w)
      | first # _ \<Rightarrow>
          (Inr \<lparr>success = False, result_output = None, model_used = first, execution_time = 0,
                tokens_used = 0, error = Some ''No models available''\<rparr>, performance_log, w))"
| "run_chain clock task_fn fallback_chain (model # rest) performance_log w =
     (let start_time = clock w in
      case task_fn model w of
        (Returns out, w') \<Rightarrow>
          (let result = \<lparr>success = True, result_output = Some out, model_used = model,
                         execution_time = clock w' - start_time, tokens_used = 0,
                         error = None\<rparr>
           in (Inr result, performance_log @ [result], w'))
      | (RaisesException e, w') \<Rightarrow>
          (let result = \<lparr>success = False, result_output = None, model_used = model,
                         execution_time = clock w' - start_time, tokens_used = 0,
                         error = Some e\<rparr>
           in if model = last fallback_chain then (Inr result, performance_log @ [result], w')
              else run_chain clock task_fn fallback_chain rest (performance_log @ [result]) w')
      | (RaisesOther e, w') \<Rightarrow> (Inl (Uncaught e), performance_log, w'))"

text \<open>
  \<^verbatim>\<open>execute_with_fallback\<close>, from the performance log and the world before the call to
  the returned result (or what propagates), the log and the world after it.
\<close>

definition execute_with_fallback ::
  "('w \<Rightarrow> rat) \<Rightarrow> (ModelType \<Rightarrow> 'w \<Rightarrow> task_outcome \<times> 'w) \<Rightarrow> TaskType
     \<Rightarrow> TaskResult list \<Rightarrow> 'w \<Rightarrow> (propagated + TaskResult) \<times> TaskResult list \<times> 'w" where
  "execute_with_fallback clock task_fn task_type performance_log w =
     run_chain clock task_fn (fallback_chains task_type) (fallback_chains task_type) performance_log w"

text \<open>
  A task function that fails on GPT-4 and answers on every other model; the world is the
  list of models called so far, and each call takes one unit of time.
\<close>

definition flaky_task :: "ModelType \<Rightarrow> ModelType list \<Rightarrow> task_outcome \<times> ModelType list" where
  "flaky_task model calls =
     (if model = GPT4 then RaisesException ''rate limited'' else Returns ''analysis'',
      calls @ [model])"

definition call_clock :: "ModelType list \<Rightarrow> rat" where
  "call_clock calls = of_nat (length calls)"

abbreviation cost :: "ModelType \<Rightarrow> rat" where
  "cost m \<equiv> cost_per_1k_tokens (profiles m)"

abbreviation latency :: "ModelType \<Rightarrow> rat" where
  "latency m \<equiv> avg_latency (profiles m)"

abbreviation quality :: "ModelType \<Rightarrow> rat" where
  "quality m \<equiv> reliability (profiles m)"

section \<open>Properties of the compliance validator\<close>

text \<open>
  Claim C3. For a court id the registry does not hold, \<open>validate_document\<close> stops at the
  lookup: it returns the non-compliant result whose only message is
  \<open>Unknown court ID: <id>\<close>, whatever the file system holds, no file access is made (the
  trace is empty), and none of the formatting, filing or special-rule messages is in the
  result.
\<close>

theorem unknown_court_halts_validation:
  assumes "get_profile reg cid = None"
  shows "compliance_validate_document str_float reg fs document_path cid =
           (Inr (False, [''Unknown court ID: '' @ cid]), [])
   \<and> snd (compliance_validate_document str_float reg fs document_path cid) = []
   \<and> (\<forall>fs' str_float'.
         compliance_validate_document str_float' reg fs' document_path cid =
         compliance_validate_document str_float reg fs document_path cid)"
  using assms by (simp add: compliance_validate_document_def)

theorem unknown_court_halts_validation_witness:
  "get_profile load_default_profiles ''hi_district'' = None
   \<and> compliance_validate_document str_spacing load_default_profiles motion_fs
        ''motion.tex'' ''hi_district'' =
       (Inr (False, [''Unknown court ID: hi_district'']), [])
   \<and> compliance_validate_document str_spacing load_default_profiles motion_fs
        ''motion.tex'' ''hi_family'' =
       (Inr (False, [''Required font '' @ [CHR 0x27] @ ''Times New Roman'' @ [CHR 0x27]
                       @ '' not specified'',
                     ''Required line spacing 2.0 not set'']),
        [PathExists ''motion.tex'', ReadText ''motion.tex''])"
proof -
  have none: "get_profile load_default_profiles ''hi_district'' = None"
    by (simp add: get_profile_def load_default_profiles_def register_profile_def
        hi_family_def cand_def ca9_def)
  have hi: "get_profile load_default_profiles ''hi_family'' = Some hi_family"
    by (simp add: get_profile_def load_default_profiles_def register_profile_def
        hi_family_def cand_def ca9_def)
  have low: "lower ''Certificate of Service. Verification. Pro se.''
      = ''certificate of service. verification. pro se.''"
    by code_simp
  have known: "compliance_validate_document str_spacing load_default_profiles motion_fs
        ''motion.tex'' ''hi_family'' =
       (Inr (False, [''Required font '' @ [CHR 0x27] @ ''Times New Roman'' @ [CHR 0x27]
                       @ '' not specified'',
                     ''Required line spacing 2.0 not set'']),
        [PathExists ''motion.tex'', ReadText ''motion.tex''])"
    by (simp add: compliance_validate_document_def hi motion_fs_def run_checks_def
        check_formatting_def check_filing_rules_def check_special_rules_def rule_set_def
        hi_family_def default_formatting_def default_filing_def str_spacing_def low)
  show ?thesis
    using unknown_court_halts_validation [OF none, of str_spacing motion_fs "''motion.tex''"]
      none known
    by simp
qed

section \<open>Properties of the drafter\<close>

lemma validate_citations_missing:
  "snd (validate_citations reg eids) = filter (\<lambda>cid. cid \<notin> dom reg) eids"
  by (simp add: validate_citations_def Let_def dom_def)

lemma validate_citations_invalid:
  "fst (validate_citations reg eids) \<longleftrightarrow> set eids \<subseteq> dom reg"
  by (auto simp: validate_citations_def Let_def filter_empty_conv dom_def)

text \<open>
  Claim C1. With \<open>require_citation\<close> set, an evidence id list holding at least one id that
  is not in the registry makes \<open>draft_paragraph\<close> fail with \<open>UnknownEvidence\<close>; the error
  carries exactly the ids of the list that the registry lacks (in order, so every missing
  id is named), no text is returned, and the drafter, its citation list included, is the
  one before the call.
\<close>

theorem draft_paragraph_unknown_evidence:
  assumes "\<exists>eid \<in> set eids. eid \<notin> dom (registry d)"
  shows "draft_paragraph d content eids True =
           (Inl (UnknownEvidence (filter (\<lambda>cid. cid \<notin> dom (registry d)) eids) (take 50 content)), d)
         \<and> (\<forall>eid \<in> set eids. eid \<notin> dom (registry d) \<longrightarrow>
               eid \<in> set (filter (\<lambda>cid. cid \<notin> dom (registry d)) eids))
         \<and> (\<forall>txt. fst (draft_paragraph d content eids True) \<noteq> Inr txt)
         \<and> citations (snd (draft_paragraph d content eids True)) = citations d"
proof -
  from assms have ne: "eids \<noteq> []" by auto
  from assms have inv: "\<not> fst (validate_citations (registry d) eids)"
    by (auto simp: validate_citations_invalid)
  have eq: "draft_paragraph d content eids True =
      (Inl (UnknownEvidence (filter (\<lambda>cid. cid \<notin> dom (registry d)) eids) (take 50 content)), d)"
    using ne inv by (simp add: draft_paragraph_def validate_citations_missing)
  show ?thesis
    unfolding eq by simp
qed

lemma example_registry_lookup:
  "example_registry ''email_20231015'' = Some email_20231015"
  "example_registry ''text_20231020'' = Some text_20231020"
  "example_registry ''ghost'' = None"
  by (simp_all add: example_registry_def register_def email_20231015_def text_20231020_def)

theorem draft_paragraph_unknown_evidence_witness:
  "''ghost'' \<in> set [''email_20231015'', ''ghost'']
   \<and> ''ghost'' \<notin> dom (registry example_drafter)
   \<and> draft_paragraph example_drafter ''Respondent did it.'' [''email_20231015'', ''ghost''] True =
       (Inl (UnknownEvidence [''ghost''] ''Respondent did it.''), example_drafter)"
proof -
  have g: "''ghost'' \<notin> dom (registry example_drafter)"
    by (simp add: example_drafter_def dom_def example_registry_lookup)
  have e: "''email_20231015'' \<in> dom (registry example_drafter)"
    by (simp add: example_drafter_def dom_def example_registry_lookup)
  have h: "\<exists>eid \<in> set [''email_20231015'', ''ghost'']. eid \<notin> dom (registry example_drafter)"
    using g by simp
  show ?thesis
    using draft_paragraph_unknown_evidence [OF h, of "''Respondent did it.''"] g e by simp
qed

subsection \<open>The citation suffix\<close>

lemma citation_fragments_filter:
  "citation_fragments reg eids =
     map (\<lambda>eid. join '', '' (cite_parts (the (reg eid)))) (filter (\<lambda>eid. eid \<in> dom reg) eids)"
  by (induction eids) (auto simp: get_def dom_def)

lemma citation_fragments_registered:
  "set eids \<subseteq> dom reg \<Longrightarrow>
   citation_fragments reg eids = map (\<lambda>eid. join '', '' (cite_parts (the (reg eid)))) eids"
  by (simp add: citation_fragments_filter filter_id_conv subset_iff)

lemma draft_paragraph_succeeds:
  assumes "\<not> require_citation \<or> (eids \<noteq> [] \<and> set eids \<subseteq> dom (registry d))"
  shows "draft_paragraph d content eids require_citation =
           (Inr (content @ '' '' @ format_citations (registry d) eids),
            d\<lparr>citations := citations d
                 @ [\<lparr>ctext = content, evidence_ids = eids, location = int (length content)\<rparr>]\<rparr>)"
  using assms by (auto simp: draft_paragraph_def validate_citations_invalid)

lemma join_replicate_empty:
  "join sep (replicate (Suc n) []) = concat (replicate n sep)"
  by (induction n) simp_all

lemma str_int_digits:
  "str_int 1 = ''1''" "str_int 2 = ''2''" "str_int 3 = ''3''" "str_int 5 = ''5''"
  by (simp_all add: str_int_def str_nat.simps digit_char_def)

text \<open>
  Claim C2 (the code departs from it). Without required citation and with no evidence
  ids the suffix is empty, but the returned text is the content followed by the
  separating space of the format string: it is never the content alone.
\<close>

theorem draft_paragraph_uncited_trailing_space:
  "fst (draft_paragraph d content [] False) = Inr (content @ '' '')
   \<and> fst (draft_paragraph d content [] False) \<noteq> Inr content
   \<and> format_citations (registry d) [] = ''''"
  by (simp add: draft_paragraph_def format_citations_def)

text \<open>
  Claim C9. Without required citation \<open>draft_paragraph\<close> always returns a text, for
  every content and every evidence id list. The suffix is built from the ids the
  registry resolves only (the others contribute no fragment), and the citation appended
  to the drafter records the whole id list as given, unresolved ids included.
\<close>

theorem draft_paragraph_optional_never_raises:
  "(\<exists>txt. fst (draft_paragraph d content eids False) = Inr txt)
   \<and> fst (draft_paragraph d content eids False) =
       Inr (content @ '' '' @
            (if eids = [] then ''''
             else ''('' @ join ''; ''
                    (map (\<lambda>eid. join '', '' (cite_parts (the (registry d eid))))
                       (filter (\<lambda>eid. eid \<in> dom (registry d)) eids)) @ '')''))
   \<and> citations (snd (draft_paragraph d content eids False)) =
       citations d @ [\<lparr>ctext = content, evidence_ids = eids, location = int (length content)\<rparr>]"
  by (simp add: draft_paragraph_succeeds format_citations_def citation_fragments_filter)

theorem draft_paragraph_optional_never_raises_witness:
  "draft_paragraph example_drafter ''Respondent did it.'' [''ghost'', ''email_20231015''] False =
     (Inr ''Respondent did it. (Ex. A, pp. 1-2)'',
      example_drafter\<lparr>citations :=
        [\<lparr>ctext = ''Respondent did it.'', evidence_ids = [''ghost'', ''email_20231015''],
          location = 18\<rparr>]\<rparr>)"
proof -
  have dom: "''ghost'' \<notin> dom (registry example_drafter)"
      "''email_20231015'' \<in> dom (registry example_drafter)"
    by (simp_all add: example_drafter_def dom_def example_registry_lookup)
  have frag: "join '', '' (cite_parts (the (registry example_drafter ''email_20231015''))) =
      ''Ex. A, pp. 1-2''"
    by (simp add: example_drafter_def example_registry_lookup email_20231015_def cite_parts_def
        truthy_str_def truthy_list_def page_part_def str_int_digits)
  have cs: "citations example_drafter = []"
    by (simp add: example_drafter_def)
  from draft_paragraph_optional_never_raises
    [of example_drafter "''Respondent did it.''" "[''ghost'', ''email_20231015'']"]
  have "fst (draft_paragraph example_drafter ''Respondent did it.''
               [''ghost'', ''email_20231015''] False) = Inr ''Respondent did it. (Ex. A, pp. 1-2)''"
    and "citations (snd (draft_paragraph example_drafter ''Respondent did it.''
               [''ghost'', ''email_20231015''] False)) =
         [\<lparr>ctext = ''Respondent did it.'', evidence_ids = [''ghost'', ''email_20231015''],
           location = 18\<rparr>]"
    using dom frag cs by simp_all
  moreover have "registry (snd (draft_paragraph example_drafter ''Respondent did it.''
               [''ghost'', ''email_20231015''] False)) = registry example_drafter"
    by (simp add: draft_paragraph_def)
  ultimately show ?thesis
    by (cases "draft_paragraph example_drafter ''Respondent did it.''
               [''ghost'', ''email_20231015''] False")
       (simp add: example_drafter_def)
qed

text \<open>
  Claim C6. For a non-empty list of registered evidence ids the text returned by
  \<open>draft_paragraph\<close> is the content, a space, and a parenthesised suffix whose per-id
  fragments are joined with \<open>; \<close>. The fragment of one source joins its parts with a comma
  and a space: \<open>Ex. l\<close> for a non-empty label \<open>l\<close>, then \<open>p. n\<close> for a single page or
  \<open>pp. first-last\<close> for several; without pages it is the label part alone. Label \<open>A\<close> with
  pages 1, 2, 3 gives \<open>Ex. A, pp. 1-3\<close>, with page 5 gives \<open>Ex. A, p. 5\<close>.
\<close>

theorem citation_suffix_format:
  assumes "eids \<noteq> []" and "set eids \<subseteq> dom (registry d)"
  shows "fst (draft_paragraph d content eids require_citation) =
           Inr (content @ '' ('' @
                join ''; '' (map (\<lambda>eid. join '', '' (cite_parts (the (registry d eid)))) eids)
                @ '')'')
   \<and> (\<forall>(e::EvidenceSource) l. exhibit_number e = Some l \<and> l \<noteq> [] \<longrightarrow>
         (\<forall>p. page_numbers e = Some [p] \<longrightarrow>
              join '', '' (cite_parts e) = ''Ex. '' @ l @ '', p. '' @ str_int p)
       \<and> (\<forall>p ps q. page_numbers e = Some (p # ps @ [q]) \<longrightarrow>
              join '', '' (cite_parts e) = ''Ex. '' @ l @ '', pp. '' @ str_int p @ ''-'' @ str_int q)
       \<and> (page_numbers e = None \<longrightarrow> join '', '' (cite_parts e) = ''Ex. '' @ l))
   \<and> (\<forall>(e::EvidenceSource). exhibit_number e = Some ''A'' \<longrightarrow>
         (page_numbers e = Some [1, 2, 3] \<longrightarrow> join '', '' (cite_parts e) = ''Ex. A, pp. 1-3'')
       \<and> (page_numbers e = Some [5] \<longrightarrow> join '', '' (cite_parts e) = ''Ex. A, p. 5'')
       \<and> (page_numbers e = None \<longrightarrow> join '', '' (cite_parts e) = ''Ex. A''))"
proof (intro conjI)
  show "fst (draft_paragraph d content eids require_citation) =
           Inr (content @ '' ('' @
                join ''; '' (map (\<lambda>eid. join '', '' (cite_parts (the (registry d eid)))) eids)
                @ '')'')"
    using assms
    by (simp add: draft_paragraph_succeeds format_citations_def citation_fragments_registered)
next
  show "\<forall>(e::EvidenceSource) l. exhibit_number e = Some l \<and> l \<noteq> [] \<longrightarrow>
         (\<forall>p. page_numbers e = Some [p] \<longrightarrow>
              join '', '' (cite_parts e) = ''Ex. '' @ l @ '', p. '' @ str_int p)
       \<and> (\<forall>p ps q. page_numbers e = Some (p # ps @ [q]) \<longrightarrow>
              join '', '' (cite_parts e) = ''Ex. '' @ l @ '', pp. '' @ str_int p @ ''-'' @ str_int q)
       \<and> (page_numbers e = None \<longrightarrow> join '', '' (cite_parts e) = ''Ex. '' @ l)"
    by (simp add: cite_parts_def truthy_str_def truthy_list_def page_part_def)
next
  show "\<forall>(e::EvidenceSource). exhibit_number e = Some ''A'' \<longrightarrow>
         (page_numbers e = Some [1, 2, 3] \<longrightarrow> join '', '' (cite_parts e) = ''Ex. A, pp. 1-3'')
       \<and> (page_numbers e = Some [5] \<longrightarrow> join '', '' (cite_parts e) = ''Ex. A, p. 5'')
       \<and> (page_numbers e = None \<longrightarrow> join '', '' (cite_parts e) = ''Ex. A'')"
    by (simp add: cite_parts_def truthy_str_def truthy_list_def page_part_def str_int_digits)
qed

theorem citation_suffix_format_witness:
  "[''email_20231015'', ''text_20231020''] \<noteq> []
   \<and> set [''email_20231015'', ''text_20231020''] \<subseteq> dom (registry example_drafter)
   \<and> fst (draft_paragraph example_drafter ''On October 15, 2023, Respondent sent an email.''
            [''email_20231015'', ''text_20231020''] True) =
       Inr ''On October 15, 2023, Respondent sent an email. (Ex. A, pp. 1-2; Ex. B, p. 1)''
   \<and> join '', '' (cite_parts email_20231015) = ''Ex. A, pp. 1-2''"
proof -
  have ne: "[''email_20231015'', ''text_20231020''] \<noteq> []" by simp
  have sub: "set [''email_20231015'', ''text_20231020''] \<subseteq> dom (registry example_drafter)"
    by (simp add: example_drafter_def dom_def example_registry_lookup)
  note fmt = citation_suffix_format [OF ne sub,
      of "''On October 15, 2023, Respondent sent an email.''" True, THEN conjunct1]
  have a: "join '', '' (cite_parts email_20231015) = ''Ex. A, pp. 1-2''"
    by (simp add: email_20231015_def cite_parts_def truthy_str_def truthy_list_def
        page_part_def str_int_digits)
  have b: "join '', '' (cite_parts text_20231020) = ''Ex. B, p. 1''"
    by (simp add: text_20231020_def cite_parts_def truthy_str_def truthy_list_def
        page_part_def str_int_digits)
  have reg: "registry example_drafter ''email_20231015'' = Some email_20231015"
    "registry example_drafter ''text_20231020'' = Some text_20231020"
    by (simp_all add: example_drafter_def example_registry_lookup)
  show ?thesis
    using fmt ne sub a b reg by simp
qed

text \<open>
  Claim C10 (as amended). A registered source with neither an exhibit label nor page
  numbers contributes the empty fragment. A paragraph citing \<open>n \<ge> 1\<close> such sources and
  nothing else gets the content, a space, and a parenthesis holding the \<open>n - 1\<close>
  separators \<open>; \<close> alone; when exactly one such source is cited this is the content
  followed by \<open> ()\<close>.
\<close>

theorem bare_sources_suffix:
  assumes "eids \<noteq> []"
    and "\<forall>eid \<in> set eids. \<exists>e. registry d eid = Some e
            \<and> \<not> truthy_str (exhibit_number e) \<and> \<not> truthy_list (page_numbers e)"
  shows "(\<forall>eid \<in> set eids. join '', '' (cite_parts (the (registry d eid))) = '''')
   \<and> fst (draft_paragraph d content eids require_citation) =
       Inr (content @ '' ('' @ concat (replicate (length eids - 1) ''; '') @ '')'')
   \<and> (length eids = 1 \<longrightarrow>
        fst (draft_paragraph d content eids require_citation) = Inr (content @ '' ()''))"
proof -
  have frag: "\<forall>eid \<in> set eids. join '', '' (cite_parts (the (registry d eid))) = ''''"
    using assms(2) by (auto simp: cite_parts_def)
  have sub: "set eids \<subseteq> dom (registry d)"
    using assms(2) by (auto simp: dom_def)
  obtain n where n: "length eids = Suc n"
    using assms(1) by (cases eids) auto
  have "map (\<lambda>eid. join '', '' (cite_parts (the (registry d eid)))) eids = map (\<lambda>_. '''') eids"
    using frag by simp
  then have "map (\<lambda>eid. join '', '' (cite_parts (the (registry d eid)))) eids = replicate (Suc n) ''''"
    using n by (simp only: map_replicate_const)
  then have res: "fst (draft_paragraph d content eids require_citation) =
       Inr (content @ '' ('' @ concat (replicate (length eids - 1) ''; '') @ '')'')"
    using assms(1) sub n
    by (simp add: draft_paragraph_succeeds format_citations_def citation_fragments_registered
        join_replicate_empty del: replicate_Suc)
  show ?thesis
    using frag res by auto
qed

theorem bare_sources_suffix_witness:
  "[''note_1''] \<noteq> []
   \<and> registry bare_drafter ''note_1'' = Some (bare_source ''note_1'')
   \<and> \<not> truthy_str (exhibit_number (bare_source ''note_1''))
   \<and> \<not> truthy_list (page_numbers (bare_source ''note_1''))
   \<and> fst (draft_paragraph bare_drafter ''Respondent was late.'' [''note_1''] True) =
       Inr ''Respondent was late. ()''"
proof -
  have reg: "registry bare_drafter ''note_1'' = Some (bare_source ''note_1'')"
    by (simp add: bare_drafter_def register_def bare_source_def)
  have bare: "\<not> truthy_str (exhibit_number (bare_source ''note_1''))"
    "\<not> truthy_list (page_numbers (bare_source ''note_1''))"
    by (simp_all add: bare_source_def truthy_str_def truthy_list_def)
  have h: "\<forall>eid \<in> set [''note_1'']. \<exists>e. registry bare_drafter eid = Some e
            \<and> \<not> truthy_str (exhibit_number e) \<and> \<not> truthy_list (page_numbers e)"
    using reg bare by simp
  have ne: "[''note_1''] \<noteq> []" by simp
  show ?thesis
    using bare_sources_suffix [OF ne h, of "''Respondent was late.''" True] reg bare by simp
qed

theorem bare_sources_suffix_counterexample:
  "registry bare_drafter ''note_1'' = Some (bare_source ''note_1'')
   \<and> registry bare_drafter ''note_2'' = Some (bare_source ''note_2'')
   \<and> join '', '' (cite_parts (bare_source ''note_1'')) = ''''
   \<and> join '', '' (cite_parts (bare_source ''note_2'')) = ''''
   \<and> fst (draft_paragraph bare_drafter ''Respondent was late.'' [''note_1'', ''note_2''] True)
       = Inr ''Respondent was late. (; )''
   \<and> fst (draft_paragraph bare_drafter ''Respondent was late.'' [''note_1'', ''note_2''] True)
       \<noteq> Inr (''Respondent was late.'' @ '' ()'')"
  by (simp add: bare_drafter_def register_def bare_source_def draft_paragraph_def
      validate_citations_def format_citations_def get_def cite_parts_def
      truthy_str_def truthy_list_def)

subsection \<open>Uncited claims\<close>

lemma match_here_filler:
  "p \<in> set claim_patterns \<Longrightarrow> match_here p (CHR ''x'' # s) = None"
  by (auto simp: claim_patterns_def is_digit_def)

lemma scan_filler:
  assumes "\<And>s. match_here p (CHR ''x'' # s) = None"
  shows "scan p pos 0 (replicate n (CHR ''x'') @ rest) = scan p (pos + n) 0 rest"
  using assms by (induction n arbitrary: pos) simp_all

lemma uncited_matches_iff:
  "m \<in> set (uncited_matches d document) \<longleftrightarrow>
     (\<exists>p \<in> set claim_patterns. m \<in> set (finditer p document))
     \<and> (\<forall>c \<in> set (citations d). \<not> \<bar>location c - int (fst m)\<bar> < 200)"
  by (auto simp: uncited_matches_def has_nearby_citation_def list_ex_iff)

text \<open>
  Claim C5. Let the drafter's only recorded citation have location \<open>L\<close>, and let a claim
  pattern match the document at start offset \<open>pos\<close>. If \<open>pos = L + 50\<close> the match is not
  among the uncited matches; if \<open>pos = L + 500\<close> it is, so its text is in the list that
  \<open>validate_document\<close> returns and the returned flag is false. The returned list is the
  text of the uncited matches, in scan order.
\<close>

theorem single_citation_proximity:
  assumes "citations d = [c]"
    and "p \<in> set claim_patterns"
    and "(pos, s) \<in> set (finditer p document)"
  shows "(int pos = location c + 50 \<longrightarrow> (pos, s) \<notin> set (uncited_matches d document))
   \<and> (int pos = location c + 500 \<longrightarrow>
        (pos, s) \<in> set (uncited_matches d document)
        \<and> s \<in> set (snd (drafter_validate_document d document))
        \<and> \<not> fst (drafter_validate_document d document))
   \<and> snd (drafter_validate_document d document) = map snd (uncited_matches d document)"
proof -
  have near: "int pos = location c + 50 \<longrightarrow> (pos, s) \<notin> set (uncited_matches d document)"
    using assms(1) by (simp add: uncited_matches_iff)
  have far: "(pos, s) \<in> set (uncited_matches d document)" if "int pos = location c + 500"
    using assms that by (auto simp: uncited_matches_iff)
  have ret: "snd (drafter_validate_document d document) = map snd (uncited_matches d document)"
    by (simp add: drafter_validate_document_def Let_def)
  have "s \<in> set (snd (drafter_validate_document d document))
      \<and> \<not> fst (drafter_validate_document d document)" if "int pos = location c + 500"
  proof -
    from far [OF that] have "s \<in> snd ` set (uncited_matches d document)"
      by force
    then show ?thesis
      by (auto simp: drafter_validate_document_def Let_def)
  qed
  with near far ret show ?thesis by blast
qed

lemma scan_padded_document:
  assumes "\<And>s. match_here p (CHR ''x'' # s) = None"
  shows "finditer p padded_document =
           scan p 60 0 (''$500x'' @ replicate 445 (CHR ''x'') @ ''$900'')"
  unfolding padded_document_def finditer_def
  using scan_filler [OF assms, of 0 60] by simp

lemma finditer_money_padded_document:
  "finditer [Lit ''$'', Plus DigitOrComma] padded_document = [(60, ''$500''), (510, ''$900'')]"
proof -
  let ?p = "[Lit ''$'', Plus DigitOrComma]"
  have filler: "\<And>s. match_here ?p (CHR ''x'' # s) = None"
    by simp
  have "scan ?p 60 0 (''$500x'' @ replicate 445 (CHR ''x'') @ ''$900'')
        = (60, ''$500'') # scan ?p 65 0 (replicate 445 (CHR ''x'') @ ''$900'')"
    by (simp add: is_digit_def)
  also have "scan ?p 65 0 (replicate 445 (CHR ''x'') @ ''$900'') = scan ?p 510 0 ''$900''"
    using scan_filler [OF filler, of 65 445] by simp
  also have "scan ?p 510 0 ''$900'' = [(510, ''$900'')]"
    by (simp add: is_digit_def)
  finally show ?thesis
    by (simp add: scan_padded_document [OF filler])
qed

lemma finditer_other_padded_document:
  assumes filler: "\<And>s. match_here p (CHR ''x'' # s) = None"
    and money: "\<And>s. match_here p (CHR ''$'' # s) = None"
    and digits: "\<And>s. match_here p (''500x'' @ s) = None" "\<And>s. match_here p (''00x'' @ s) = None"
      "\<And>s. match_here p (''0x'' @ s) = None"
      "match_here p ''900'' = None" "match_here p ''00'' = None" "match_here p ''0'' = None"
  shows "finditer p padded_document = []"
proof -
  have "scan p 60 0 (''$500x'' @ replicate 445 (CHR ''x'') @ ''$900'')
        = scan p 65 0 (replicate 445 (CHR ''x'') @ ''$900'')"
    using filler [of "replicate 445 (CHR ''x'') @ ''$900''"]
      money [of "''500x'' @ replicate 445 (CHR ''x'') @ ''$900''"]
      digits(1-3) [of "replicate 445 (CHR ''x'') @ ''$900''"]
    by simp
  also have "\<dots> = scan p 510 0 ''$900''"
    using scan_filler [OF filler, of 65 445] by simp
  also have "\<dots> = []"
    using money [of "''900''"] digits(4-6) by simp
  finally show ?thesis
    by (simp add: scan_padded_document [OF filler])
qed

lemma uncited_matches_padded_document:
  "uncited_matches noted_drafter padded_document = [(510, ''$900'')]"
proof -
  have a: "finditer [Lit ''Respondent '', Plus Word, Lit '' '',
                     Alt [''did'', ''failed to'', ''refused to'']] padded_document = []"
    by (rule finditer_other_padded_document) simp_all
  have b: "finditer [Lit ''On '', Plus Word, Plus Space, Plus Digit, Lit '','', Plus Space,
                     Rep Digit 4] padded_document = []"
    by (rule finditer_other_padded_document) simp_all
  have c: "finditer [Plus Digit, Lit '' '', Alt [''times'', ''instances'', ''occasions'']]
             padded_document = []"
    by (rule finditer_other_padded_document) (simp_all add: is_digit_def)
  show ?thesis
    by (simp add: uncited_matches_def claim_patterns_def a b c finditer_money_padded_document
        has_nearby_citation_def noted_drafter_def)
qed

theorem single_citation_proximity_witness:
  "citations noted_drafter =
     [\<lparr>ctext = ''Paid late.'', evidence_ids = [''email_20231015''], location = 10\<rparr>]
   \<and> [Lit ''$'', Plus DigitOrComma] \<in> set claim_patterns
   \<and> (60, ''$500'') \<in> set (finditer [Lit ''$'', Plus DigitOrComma] padded_document)
   \<and> (510, ''$900'') \<in> set (finditer [Lit ''$'', Plus DigitOrComma] padded_document)
   \<and> (60, ''$500'') \<notin> set (uncited_matches noted_drafter padded_document)
   \<and> (510, ''$900'') \<in> set (uncited_matches noted_drafter padded_document)
   \<and> drafter_validate_document noted_drafter padded_document = (False, [''$900''])"
proof -
  let ?c = "\<lparr>ctext = ''Paid late.'', evidence_ids = [''email_20231015''], location = 10\<rparr>"
  have cs: "citations noted_drafter = [?c]"
    by (simp add: noted_drafter_def)
  have pat: "[Lit ''$'', Plus DigitOrComma] \<in> set claim_patterns"
    by (simp add: claim_patterns_def)
  have near: "(60, ''$500'') \<in> set (finditer [Lit ''$'', Plus DigitOrComma] padded_document)"
    and far: "(510, ''$900'') \<in> set (finditer [Lit ''$'', Plus DigitOrComma] padded_document)"
    by (simp_all add: finditer_money_padded_document)
  have "(60, ''$500'') \<notin> set (uncited_matches noted_drafter padded_document)"
    using single_citation_proximity [OF cs pat near] by simp
  moreover have "(510, ''$900'') \<in> set (uncited_matches noted_drafter padded_document)"
    using single_citation_proximity [OF cs pat far] by simp
  moreover have "drafter_validate_document noted_drafter padded_document = (False, [''$900''])"
    by (simp add: drafter_validate_document_def uncited_matches_padded_document)
  ultimately show ?thesis
    using cs pat near far by simp
qed

subsection \<open>The exhibit list\<close>

lemma set_labelled:
  "(l, e) \<in> set (labelled reg ids) \<longleftrightarrow>
     (\<exists>eid \<in> set ids. reg eid = Some e \<and> exhibit_number e = Some l \<and> l \<noteq> [])"
proof
  assume "(l, e) \<in> set (labelled reg ids)"
  then show "\<exists>eid \<in> set ids. reg eid = Some e \<and> exhibit_number e = Some l \<and> l \<noteq> []"
    by (auto simp: labelled_def truthy_str_def split: option.splits if_splits)
next
  assume "\<exists>eid \<in> set ids. reg eid = Some e \<and> exhibit_number e = Some l \<and> l \<noteq> []"
  then obtain eid where "eid \<in> set ids" "reg eid = Some e" "exhibit_number e = Some l" "l \<noteq> []"
    by blast
  then show "(l, e) \<in> set (labelled reg ids)"
    by (force simp: labelled_def truthy_str_def)
qed

lemma labelled_Cons:
  "labelled reg (eid # ids) =
     (case reg eid of
        None \<Rightarrow> []
      | Some e \<Rightarrow> if truthy_str (exhibit_number e) then [(the (exhibit_number e), e)] else [])
     @ labelled reg ids"
  by (simp add: labelled_def)

lemma collect_ids_append:
  "collect_ids reg (xs @ ys) ex = collect_ids reg ys (collect_ids reg xs ex)"
  by (induction xs arbitrary: ex) (auto split: option.splits)

lemma collect_exhibits_concat:
  "collect_exhibits reg cs ex = collect_ids reg (concat (map evidence_ids cs)) ex"
  by (induction cs arbitrary: ex) (simp_all add: collect_ids_append)

lemma collect_ids_keys:
  "fst ` set (collect_ids reg ids ex) = fst ` set ex \<union> fst ` set (labelled reg ids)"
proof (induction ids arbitrary: ex)
  case Nil
  then show ?case by (simp add: labelled_def)
next
  case (Cons eid ids)
  show ?case
  proof (cases "reg eid")
    case None
    then show ?thesis
      using Cons.IH [of ex] by (simp add: get_def labelled_Cons)
  next
    case (Some e)
    then show ?thesis
      using Cons.IH [of ex] Cons.IH [of "AList.update (the (exhibit_number e)) e ex"]
      by (auto simp: get_def labelled_Cons AList.dom_update)
  qed
qed

lemma collect_ids_distinct:
  "distinct (map fst ex) \<Longrightarrow> distinct (map fst (collect_ids reg ids ex))"
  by (induction ids arbitrary: ex) (auto simp: AList.distinct_update split: option.splits)

lemma collect_ids_value:
  "map_of (collect_ids reg ids ex) k = Some e \<Longrightarrow>
   map_of ex k = Some e \<or> (k, e) \<in> set (labelled reg ids)"
proof (induction ids arbitrary: ex)
  case Nil
  then show ?case by simp
next
  case (Cons eid ids)
  show ?case
  proof (cases "reg eid")
    case None
    then show ?thesis
      using Cons.IH [of ex] Cons.prems by (auto simp: get_def labelled_Cons)
  next
    case (Some e')
    show ?thesis
    proof (cases "truthy_str (exhibit_number e')")
      case True
      from Cons.prems Some True
      have "map_of (collect_ids reg ids (AList.update (the (exhibit_number e')) e' ex)) k = Some e"
        by (simp add: get_def)
      from Cons.IH [OF this]
      show ?thesis
        using Some True by (auto simp: labelled_Cons AList.update_Some_unfold)
    next
      case False
      then show ?thesis
        using Cons.IH [of ex] Cons.prems Some by (auto simp: get_def labelled_Cons)
    qed
  qed
qed

lemma exhibit_items_total:
  "set ks \<subseteq> fst ` set al \<Longrightarrow>
   exhibit_items al ks = Inr (map (\<lambda>k. exhibit_item k (the (map_of al k))) ks)"
proof (induction ks)
  case Nil
  then show ?case by simp
next
  case (Cons k ks)
  then obtain e where "map_of al k = Some e"
    by (cases "map_of al k") (auto simp: map_of_eq_None_iff)
  with Cons show ?case by simp
qed

text \<open>The exhibit list written out: sorted keys of the collected dict, one line each.\<close>

lemma generate_exhibit_list_lines:
  "generate_exhibit_list d =
     Inr (join [CHR 0x0A]
            ([exhibit_header]
             @ map (\<lambda>k. exhibit_item k
                          (the (map_of (collect_ids (registry d)
                                          (concat (map evidence_ids (citations d))) []) k)))
                 (sort (map fst (collect_ids (registry d)
                                   (concat (map evidence_ids (citations d))) [])))
             @ [exhibit_footer]))"
  by (simp add: generate_exhibit_list_def Let_def collect_exhibits_concat exhibit_items_total)

text \<open>
  Claim C4 (as amended). Take two drafting histories over the same registry that record
  the same multiset of citations, and suppose that any two cited sources filed under the
  same exhibit label have the same description. Then \<open>generate_exhibit_list\<close> returns the
  same text for both: the header, one line \<open>Exhibit label: description\<close> for each
  non-empty label that a cited, registered source carries, the labels distinct and in
  ascending order, and the footer.
\<close>

theorem exhibit_list_order_independent:
  assumes "registry d1 = registry d2"
    and "mset (citations d1) = mset (citations d2)"
    and "\<forall>(l1, e1) \<in> set (cited_exhibits d1). \<forall>(l2, e2) \<in> set (cited_exhibits d1).
           l1 = l2 \<longrightarrow> description e1 = description e2"
  shows "generate_exhibit_list d1 = generate_exhibit_list d2
   \<and> (\<exists>entries.
        generate_exhibit_list d1 =
          Inr (join [CHR 0x0A]
                 ([exhibit_header]
                  @ map (\<lambda>(l, dsc). ''  '' @ [CHR 0x5C] @ ''item Exhibit '' @ l @ '': '' @ dsc) entries
                  @ [exhibit_footer]))
        \<and> sorted (map fst entries) \<and> distinct (map fst entries)
        \<and> set entries = (\<lambda>(l, e). (l, description e)) ` set (cited_exhibits d1))"
proof -
  define reg where "reg = registry d1"
  define ids1 where "ids1 = concat (map evidence_ids (citations d1))"
  define ids2 where "ids2 = concat (map evidence_ids (citations d2))"
  define al1 where "al1 = collect_ids reg ids1 []"
  define al2 where "al2 = collect_ids reg ids2 []"
  have reg2: "registry d2 = reg"
    using assms(1) by (simp add: reg_def)
  have "set (citations d1) = set (citations d2)"
    using assms(2) by (rule mset_eq_setD)
  then have ids: "set ids1 = set ids2"
    by (simp add: ids1_def ids2_def)
  have lab: "set (labelled reg ids1) = set (labelled reg ids2)"
    using ids by (auto simp: set_labelled)
  have same: "description e = description e'"
    if "(l, e) \<in> set (labelled reg ids1)" "(l, e') \<in> set (labelled reg ids1)" for l e e'
    using assms(3) that by (fastforce simp: cited_exhibits_def reg_def ids1_def)
  have keys1: "fst ` set al1 = fst ` set (labelled reg ids1)"
    by (simp add: al1_def collect_ids_keys)
  have keys2: "fst ` set al2 = fst ` set (labelled reg ids1)"
    by (simp add: al2_def collect_ids_keys lab)
  have dist1: "distinct (map fst al1)" and dist2: "distinct (map fst al2)"
    by (simp_all add: al1_def al2_def collect_ids_distinct)
  have sorted_eq: "sort (map fst al1) = sort (map fst al2)"
    by (rule sorted_distinct_set_unique) (simp_all add: dist1 dist2 keys1 keys2)
  have val1: "\<exists>e. map_of al1 k = Some e \<and> (k, e) \<in> set (labelled reg ids1)"
    if "k \<in> fst ` set al1" for k
  proof -
    from that obtain e where e: "map_of al1 k = Some e"
      by (cases "map_of al1 k") (auto simp: map_of_eq_None_iff)
    then have "(k, e) \<in> set (labelled reg ids1)"
      using collect_ids_value [of reg ids1 "[]" k e] by (simp add: al1_def)
    with e show ?thesis by blast
  qed
  have val2: "\<exists>e. map_of al2 k = Some e \<and> (k, e) \<in> set (labelled reg ids1)"
    if "k \<in> fst ` set al2" for k
  proof -
    from that obtain e where e: "map_of al2 k = Some e"
      by (cases "map_of al2 k") (auto simp: map_of_eq_None_iff)
    then have "(k, e) \<in> set (labelled reg ids2)"
      using collect_ids_value [of reg ids2 "[]" k e] by (simp add: al2_def)
    with e lab show ?thesis by blast
  qed
  have items: "map (\<lambda>k. exhibit_item k (the (map_of al1 k))) (sort (map fst al1))
             = map (\<lambda>k. exhibit_item k (the (map_of al2 k))) (sort (map fst al2))"
    unfolding sorted_eq [symmetric]
  proof (rule map_cong [OF refl])
    fix k assume "k \<in> set (sort (map fst al1))"
    then have k1: "k \<in> fst ` set al1" by simp
    then have k2: "k \<in> fst ` set al2" using keys1 keys2 by simp
    from val1 [OF k1] obtain e1 where e1: "map_of al1 k = Some e1" "(k, e1) \<in> set (labelled reg ids1)"
      by blast
    from val2 [OF k2] obtain e2 where e2: "map_of al2 k = Some e2" "(k, e2) \<in> set (labelled reg ids1)"
      by blast
    from same [OF e1(2) e2(2)] e1(1) e2(1)
    have "description (the (map_of al1 k)) = description (the (map_of al2 k))"
      by simp
    then show "exhibit_item k (the (map_of al1 k)) = exhibit_item k (the (map_of al2 k))"
      by (simp add: exhibit_item_def)
  qed
  have g1: "generate_exhibit_list d1 =
      Inr (join [CHR 0x0A] ([exhibit_header]
             @ map (\<lambda>k. exhibit_item k (the (map_of al1 k))) (sort (map fst al1))
             @ [exhibit_footer]))"
    by (simp add: generate_exhibit_list_lines al1_def ids1_def reg_def)
  have g2: "generate_exhibit_list d2 =
      Inr (join [CHR 0x0A] ([exhibit_header]
             @ map (\<lambda>k. exhibit_item k (the (map_of al2 k))) (sort (map fst al2))
             @ [exhibit_footer]))"
    by (simp add: generate_exhibit_list_lines al2_def ids2_def reg2)
  have eq: "generate_exhibit_list d1 = generate_exhibit_list d2"
    by (simp only: g1 g2 items)
  define entries where
    "entries = map (\<lambda>k. (k, description (the (map_of al1 k)))) (sort (map fst al1))"
  have e_fst: "map fst entries = sort (map fst al1)"
    by (simp add: entries_def comp_def)
  have e_lines: "map (\<lambda>(l, dsc). ''  '' @ [CHR 0x5C] @ ''item Exhibit '' @ l @ '': '' @ dsc) entries
      = map (\<lambda>k. exhibit_item k (the (map_of al1 k))) (sort (map fst al1))"
    by (simp add: entries_def exhibit_item_def comp_def)
  have e_set: "set entries = (\<lambda>(l, e). (l, description e)) ` set (labelled reg ids1)"
  proof (rule set_eqI)
    fix x :: "string \<times> string"
    obtain l dsc where x: "x = (l, dsc)" by (cases x)
    show "x \<in> set entries \<longleftrightarrow> x \<in> (\<lambda>(l, e). (l, description e)) ` set (labelled reg ids1)"
    proof
      assume "x \<in> set entries"
      then have k: "l \<in> fst ` set al1" and dsc: "dsc = description (the (map_of al1 l))"
        using x by (auto simp: entries_def)
      from val1 [OF k] obtain e where "map_of al1 l = Some e" "(l, e) \<in> set (labelled reg ids1)"
        by blast
      then show "x \<in> (\<lambda>(l, e). (l, description e)) ` set (labelled reg ids1)"
        using x dsc by force
    next
      assume "x \<in> (\<lambda>(l, e). (l, description e)) ` set (labelled reg ids1)"
      then obtain e where e: "(l, e) \<in> set (labelled reg ids1)" "dsc = description e"
        using x by auto
      then have k: "l \<in> fst ` set al1"
        using keys1 by force
      from val1 [OF k] obtain e' where e': "map_of al1 l = Some e'" "(l, e') \<in> set (labelled reg ids1)"
        by blast
      from same [OF e'(2) e(1)] have "description e' = description e" .
      then show "x \<in> set entries"
        using x e e' k by (force simp: entries_def)
    qed
  qed
  have "generate_exhibit_list d1 =
          Inr (join [CHR 0x0A]
                 ([exhibit_header]
                  @ map (\<lambda>(l, dsc). ''  '' @ [CHR 0x5C] @ ''item Exhibit '' @ l @ '': '' @ dsc) entries
                  @ [exhibit_footer]))
        \<and> sorted (map fst entries) \<and> distinct (map fst entries)
        \<and> set entries = (\<lambda>(l, e). (l, description e)) ` set (cited_exhibits d1)"
    using g1 e_set dist1
    by (simp only: e_lines e_fst cited_exhibits_def reg_def ids1_def sorted_sort distinct_sort)
  with eq show ?thesis by blast
qed

lemma twin_registry_lookup:
  "twin_registry ''letter_1'' = Some twin_first"
  "twin_registry ''letter_2'' = Some twin_second"
  by (simp_all add: twin_registry_def register_def twin_first_def twin_second_def)

theorem exhibit_list_order_independent_witness:
  "registry history_a = registry history_b
   \<and> mset (citations history_a) = mset (citations history_b)
   \<and> cited_exhibits history_a =
       [(''A'', email_20231015), (''B'', text_20231020), (''A'', email_20231015)]
   \<and> generate_exhibit_list history_a = generate_exhibit_list history_b
   \<and> generate_exhibit_list history_b =
       Inr (join [CHR 0x0A]
              [exhibit_header,
               ''  '' @ [CHR 0x5C] @ ''item Exhibit A: Email from Respondent dated October 15, 2023'',
               ''  '' @ [CHR 0x5C] @ ''item Exhibit B: Text message thread from October 20, 2023'',
               exhibit_footer])"
proof -
  have r: "registry history_a = registry history_b"
    by (simp add: history_a_def history_b_def)
  have m: "mset (citations history_a) = mset (citations history_b)"
    by (simp add: history_a_def history_b_def)
  have lab: "exhibit_number email_20231015 = Some ''A''" "exhibit_number text_20231020 = Some ''B''"
    "description email_20231015 = ''Email from Respondent dated October 15, 2023''"
    "description text_20231020 = ''Text message thread from October 20, 2023''"
    by (simp_all add: email_20231015_def text_20231020_def)
  have c: "cited_exhibits history_a =
       [(''A'', email_20231015), (''B'', text_20231020), (''A'', email_20231015)]"
    by (simp add: cited_exhibits_def labelled_def history_a_def cites_def example_registry_lookup
        truthy_str_def lab)
  have u: "\<forall>(l1, e1) \<in> set (cited_exhibits history_a). \<forall>(l2, e2) \<in> set (cited_exhibits history_a).
           l1 = l2 \<longrightarrow> description e1 = description e2"
    unfolding c by simp
  have b: "generate_exhibit_list history_b =
       Inr (join [CHR 0x0A]
              [exhibit_header,
               ''  '' @ [CHR 0x5C] @ ''item Exhibit A: Email from Respondent dated October 15, 2023'',
               ''  '' @ [CHR 0x5C] @ ''item Exhibit B: Text message thread from October 20, 2023'',
               exhibit_footer])"
    by (simp add: generate_exhibit_list_def history_b_def cites_def get_def
        example_registry_lookup truthy_str_def lab exhibit_item_def)
  show ?thesis
    using exhibit_list_order_independent [OF r m u] r m c b by simp
qed

theorem exhibit_list_order_counterexample:
  "mset [cites ''letter_1'', cites ''letter_2''] = mset [cites ''letter_2'', cites ''letter_1'']
   \<and> generate_exhibit_list
        \<lparr>registry = twin_registry, citations = [cites ''letter_1'', cites ''letter_2'']\<rparr> =
       Inr (join [CHR 0x0A]
              [exhibit_header, ''  '' @ [CHR 0x5C] @ ''item Exhibit A: Letter of April 9'',
               exhibit_footer])
   \<and> generate_exhibit_list
        \<lparr>registry = twin_registry, citations = [cites ''letter_2'', cites ''letter_1'']\<rparr> =
       Inr (join [CHR 0x0A]
              [exhibit_header, ''  '' @ [CHR 0x5C] @ ''item Exhibit A: Letter of March 3'',
               exhibit_footer])
   \<and> generate_exhibit_list
        \<lparr>registry = twin_registry, citations = [cites ''letter_1'', cites ''letter_2'']\<rparr>
     \<noteq> generate_exhibit_list
        \<lparr>registry = twin_registry, citations = [cites ''letter_2'', cites ''letter_1'']\<rparr>"
proof -
  have lab: "exhibit_number twin_first = Some ''A''" "exhibit_number twin_second = Some ''A''"
    "description twin_first = ''Letter of March 3''" "description twin_second = ''Letter of April 9''"
    by (simp_all add: twin_first_def twin_second_def)
  have ab: "generate_exhibit_list
        \<lparr>registry = twin_registry, citations = [cites ''letter_1'', cites ''letter_2'']\<rparr> =
       Inr (join [CHR 0x0A]
              [exhibit_header, ''  '' @ [CHR 0x5C] @ ''item Exhibit A: Letter of April 9'',
               exhibit_footer])"
    by (simp add: generate_exhibit_list_def cites_def get_def twin_registry_lookup
        truthy_str_def lab exhibit_item_def)
  have ba: "generate_exhibit_list
        \<lparr>registry = twin_registry, citations = [cites ''letter_2'', cites ''letter_1'']\<rparr> =
       Inr (join [CHR 0x0A]
              [exhibit_header, ''  '' @ [CHR 0x5C] @ ''item Exhibit A: Letter of March 3'',
               exhibit_footer])"
    by (simp add: generate_exhibit_list_def cites_def get_def twin_registry_lookup
        truthy_str_def lab exhibit_item_def)
  show ?thesis
    unfolding ab ba by (simp add: exhibit_header_def exhibit_footer_def)
qed

section \<open>Properties of the model router\<close>

subsection \<open>Selection by priority\<close>

lemma py_min_snoc:
  "py_min key x (xs @ [y]) =
     (if key y < key (py_min key x xs) then y else py_min key x xs)"
  by (simp add: py_min_def)

lemma py_min_first:
  "\<exists>i < length (x # xs). py_min key x xs = (x # xs) ! i
      \<and> (\<forall>j < length (x # xs). key ((x # xs) ! i) \<le> key ((x # xs) ! j))
      \<and> (\<forall>j < i. key ((x # xs) ! i) < key ((x # xs) ! j))"
proof (induction xs rule: rev_induct)
  case Nil
  show ?case by (simp add: py_min_def)
next
  case (snoc y xs)
  then obtain i where i: "i < length (x # xs)" "py_min key x xs = (x # xs) ! i"
    and le: "\<forall>j < length (x # xs). key ((x # xs) ! i) \<le> key ((x # xs) ! j)"
    and lt: "\<forall>j < i. key ((x # xs) ! i) < key ((x # xs) ! j)"
    by blast
  have old: "(x # xs @ [y]) ! j = (x # xs) ! j" if "j < length (x # xs)" for j
    using that nth_append [of "x # xs" "[y]" j] by simp
  have new: "(x # xs @ [y]) ! length (x # xs) = y"
    using nth_append_length [of "x # xs" y "[]"] by simp
  show ?case
  proof (cases "key y < key (py_min key x xs)")
    case True
    have "\<forall>j < length (x # xs @ [y]). key y \<le> key ((x # xs @ [y]) ! j)"
    proof (intro allI impI)
      fix j assume "j < length (x # xs @ [y])"
      then consider "j < length (x # xs)" | "j = length (x # xs)" by fastforce
      then show "key y \<le> key ((x # xs @ [y]) ! j)"
      proof cases
        case 1
        with le True i(2) old [OF 1] show ?thesis by fastforce
      next
        case 2
        with new show ?thesis by simp
      qed
    qed
    moreover have "\<forall>j < length (x # xs). key y < key ((x # xs @ [y]) ! j)"
    proof (intro allI impI)
      fix j assume j: "j < length (x # xs)"
      with le True i(2) old [OF j] show "key y < key ((x # xs @ [y]) ! j)" by fastforce
    qed
    ultimately show ?thesis
      using True new
      by (intro exI [of _ "length (x # xs)"]) (simp add: py_min_snoc)
  next
    case False
    have "\<forall>j < length (x # xs @ [y]). key ((x # xs) ! i) \<le> key ((x # xs @ [y]) ! j)"
    proof (intro allI impI)
      fix j assume "j < length (x # xs @ [y])"
      then consider "j < length (x # xs)" | "j = length (x # xs)" by fastforce
      then show "key ((x # xs) ! i) \<le> key ((x # xs @ [y]) ! j)"
      proof cases
        case 1
        with le old [OF 1] show ?thesis by simp
      next
        case 2
        with new False i(2) show ?thesis by simp
      qed
    qed
    moreover have "\<forall>j < i. key ((x # xs) ! i) < key ((x # xs @ [y]) ! j)"
    proof (intro allI impI)
      fix j assume j: "j < i"
      with i(1) have "j < length (x # xs)" by simp
      from old [OF this] lt j show "key ((x # xs) ! i) < key ((x # xs @ [y]) ! j)" by simp
    qed
    ultimately show ?thesis
      using False i old [OF i(1)]
      by (intro exI [of _ i]) (simp add: py_min_snoc)
  qed
qed

lemma py_max_as_min: "py_max key x xs = py_min (\<lambda>m. - key m) x xs"
  by (simp add: py_max_def py_min_def)

lemma py_max_first:
  "\<exists>i < length (x # xs). py_max key x xs = (x # xs) ! i
      \<and> (\<forall>j < length (x # xs). key ((x # xs) ! j) \<le> key ((x # xs) ! i))
      \<and> (\<forall>j < i. key ((x # xs) ! j) < key ((x # xs) ! i))"
  using py_min_first [of x xs "\<lambda>m. - key m"] by (simp add: py_max_as_min)

lemma select_candidates_chain:
  "select_candidates task_type context_size =
     filter (\<lambda>m. m \<in> set (select_candidates task_type context_size))
       (fallback_chains (case task_of_string task_type of Some t \<Rightarrow> t | None \<Rightarrow> LEGAL_ANALYSIS))"
proof -
  have "filter (\<lambda>m. m \<in> set (filter P xs)) xs = filter P xs" for P :: "ModelType \<Rightarrow> bool" and xs
    by (rule filter_cong) auto
  moreover have "filter (\<lambda>m. m \<in> set xs) xs = xs" for xs :: "ModelType list"
    by simp
  ultimately show ?thesis
    by (simp add: select_candidates_def Let_def split: option.splits)
qed

text \<open>
  Claim C7. Whenever the candidate list (the task's fallback chain after the context
  filter, in chain order) is not empty, \<open>select_model\<close> returns one of its members: for
  priority \<open>cost\<close> one of minimum cost per 1k tokens, for priority \<open>speed\<close> one of minimum
  average latency, for any other priority one of maximum reliability, and every
  candidate before it in the list is strictly worse, so ties go to the earliest
  position. In particular \<open>select_model legal_research cost\<close> is Perplexity, the cheapest
  member of the legal-research chain.
\<close>

theorem select_model_by_priority:
  assumes "select_candidates task_type context_size \<noteq> []"
  shows "(\<exists>i < length (select_candidates task_type context_size).
            select_model task_type context_size priority
              = select_candidates task_type context_size ! i
          \<and> (priority = ''cost'' \<longrightarrow>
               (\<forall>j < length (select_candidates task_type context_size).
                   cost (select_candidates task_type context_size ! i)
                     \<le> cost (select_candidates task_type context_size ! j))
             \<and> (\<forall>j < i. cost (select_candidates task_type context_size ! i)
                     < cost (select_candidates task_type context_size ! j)))
          \<and> (priority \<noteq> ''cost'' \<and> priority = ''speed'' \<longrightarrow>
               (\<forall>j < length (select_candidates task_type context_size).
                   latency (select_candidates task_type context_size ! i)
                     \<le> latency (select_candidates task_type context_size ! j))
             \<and> (\<forall>j < i. latency (select_candidates task_type context_size ! i)
                     < latency (select_candidates task_type context_size ! j)))
          \<and> (priority \<noteq> ''cost'' \<and> priority \<noteq> ''speed'' \<longrightarrow>
               (\<forall>j < length (select_candidates task_type context_size).
                   quality (select_candidates task_type context_size ! j)
                     \<le> quality (select_candidates task_type context_size ! i))
             \<and> (\<forall>j < i. quality (select_candidates task_type context_size ! j)
                     < quality (select_candidates task_type context_size ! i))))
   \<and> select_candidates task_type context_size =
       filter (\<lambda>m. m \<in> set (select_candidates task_type context_size))
         (fallback_chains (case task_of_string task_type of Some t \<Rightarrow> t | None \<Rightarrow> LEGAL_ANALYSIS))
   \<and> select_model ''legal_research'' None ''cost'' = PERPLEXITY
   \<and> PERPLEXITY \<in> set (fallback_chains LEGAL_RESEARCH)
   \<and> (\<forall>m \<in> set (fallback_chains LEGAL_RESEARCH). cost PERPLEXITY \<le> cost m)"
proof -
  obtain c cs where cs: "select_candidates task_type context_size = c # cs"
    using assms by (cases "select_candidates task_type context_size") auto
  have general: "\<exists>i < length (c # cs).
            select_model task_type context_size priority = (c # cs) ! i
          \<and> (priority = ''cost'' \<longrightarrow>
               (\<forall>j < length (c # cs). cost ((c # cs) ! i) \<le> cost ((c # cs) ! j))
             \<and> (\<forall>j < i. cost ((c # cs) ! i) < cost ((c # cs) ! j)))
          \<and> (priority \<noteq> ''cost'' \<and> priority = ''speed'' \<longrightarrow>
               (\<forall>j < length (c # cs). latency ((c # cs) ! i) \<le> latency ((c # cs) ! j))
             \<and> (\<forall>j < i. latency ((c # cs) ! i) < latency ((c # cs) ! j)))
          \<and> (priority \<noteq> ''cost'' \<and> priority \<noteq> ''speed'' \<longrightarrow>
               (\<forall>j < length (c # cs). quality ((c # cs) ! j) \<le> quality ((c # cs) ! i))
             \<and> (\<forall>j < i. quality ((c # cs) ! j) < quality ((c # cs) ! i)))"
  proof (cases "priority = ''cost''")
    case True
    then have "select_model task_type context_size priority = py_min cost c cs"
      by (simp add: select_model_def cs)
    with py_min_first [of c cs cost] True show ?thesis by auto
  next
    case False
    show ?thesis
    proof (cases "priority = ''speed''")
      case True
      with False have "select_model task_type context_size priority = py_min latency c cs"
        by (simp add: select_model_def cs)
      with py_min_first [of c cs latency] True False show ?thesis by auto
    next
      case other: False
      with False have "select_model task_type context_size priority = py_max quality c cs"
        by (simp add: select_model_def cs)
      with py_max_first [of c cs quality] other False show ?thesis by auto
    qed
  qed
  have research: "select_model ''legal_research'' None ''cost'' = PERPLEXITY"
    by (simp add: select_model_def select_candidates_def task_of_string_def py_min_def)
  have cheapest: "\<forall>m \<in> set (fallback_chains LEGAL_RESEARCH). cost PERPLEXITY \<le> cost m"
    by simp
  show ?thesis
    using general research cheapest select_candidates_chain [of task_type context_size]
    unfolding cs [symmetric] by simp
qed

theorem select_model_by_priority_witness:
  "select_candidates ''legal_research'' None = [PERPLEXITY, CLAUDE_3_OPUS, GPT4]
   \<and> select_candidates ''legal_research'' None \<noteq> []
   \<and> select_model ''legal_research'' None ''cost'' = PERPLEXITY
   \<and> cost PERPLEXITY = 1 / 1000 \<and> cost CLAUDE_3_OPUS = 15 / 1000 \<and> cost GPT4 = 3 / 100
   \<and> select_model ''legal_research'' None ''speed'' = PERPLEXITY
   \<and> select_model ''legal_research'' None ''quality'' = GPT4
   \<and> select_model ''document_generation'' (Some 150000) ''quality'' = CLAUDE_3_OPUS"
proof -
  have cands: "select_candidates ''legal_research'' None = [PERPLEXITY, CLAUDE_3_OPUS, GPT4]"
    by (simp add: select_candidates_def task_of_string_def)
  then have ne: "select_candidates ''legal_research'' None \<noteq> []"
    by simp
  have others: "select_model ''legal_research'' None ''speed'' = PERPLEXITY"
    "select_model ''legal_research'' None ''quality'' = GPT4"
    "select_model ''document_generation'' (Some 150000) ''quality'' = CLAUDE_3_OPUS"
    by (simp_all add: select_model_def select_candidates_def task_of_string_def
        py_min_def py_max_def)
  from select_model_by_priority [OF ne, of "''cost''"]
  have cheapest: "select_model ''legal_research'' None ''cost'' = PERPLEXITY"
    by (elim conjE)
  show ?thesis
    using cheapest cands ne others by simp
qed

subsection \<open>Fallback\<close>

lemma first_is_not_last:
  "fallback_chains task_type = first # second # rest \<Longrightarrow>
   first \<noteq> last (fallback_chains task_type)"
  by (cases task_type) auto

text \<open>
  Claim C8. Let the task's fallback chain begin with two models. If the task function
  raises on the first and returns on the second, \<open>execute_with_fallback\<close> returns a
  successful result naming the second model, the performance log grows by exactly two
  entries, the failure of the first model and then the success of the second, and the
  world is left as it was right after the second call: the task function is not
  invoked on any later member of the chain.
\<close>

theorem fallback_to_second_model:
  assumes "fallback_chains task_type = first # second # rest"
    and "task_fn first w = (RaisesException e, w1)"
    and "task_fn second w1 = (Returns out, w2)"
  shows "execute_with_fallback clock task_fn task_type performance_log w =
           (Inr \<lparr>success = True, result_output = Some out, model_used = second,
                 execution_time = clock w2 - clock w1, tokens_used = 0, error = None\<rparr>,
            performance_log
              @ [\<lparr>success = False, result_output = None, model_used = first,
                   execution_time = clock w1 - clock w, tokens_used = 0, error = Some e\<rparr>,
                 \<lparr>success = True, result_output = Some out, model_used = second,
                   execution_time = clock w2 - clock w1, tokens_used = 0, error = None\<rparr>],
            w2)"
proof -
  have "first \<noteq> last (first # second # rest)"
    using first_is_not_last [OF assms(1)] assms(1) by simp
  then show ?thesis
    using assms by (simp add: execute_with_fallback_def Let_def)
qed

theorem fallback_to_second_model_witness:
  "fallback_chains LEGAL_ANALYSIS = GPT4 # CLAUDE_3_OPUS # [CLAUDE_3_SONNET]
   \<and> flaky_task GPT4 [] = (RaisesException ''rate limited'', [GPT4])
   \<and> flaky_task CLAUDE_3_OPUS [GPT4] = (Returns ''analysis'', [GPT4, CLAUDE_3_OPUS])
   \<and> execute_with_fallback call_clock flaky_task LEGAL_ANALYSIS [] [] =
       (Inr \<lparr>success = True, result_output = Some ''analysis'', model_used = CLAUDE_3_OPUS,
             execution_time = 1, tokens_used = 0, error = None\<rparr>,
        [\<lparr>success = False, result_output = None, model_used = GPT4,
           execution_time = 1, tokens_used = 0, error = Some ''rate limited''\<rparr>,
         \<lparr>success = True, result_output = Some ''analysis'', model_used = CLAUDE_3_OPUS,
           execution_time = 1, tokens_used = 0, error = None\<rparr>],
        [GPT4, CLAUDE_3_OPUS])"
proof -
  have chain: "fallback_chains LEGAL_ANALYSIS = GPT4 # CLAUDE_3_OPUS # [CLAUDE_3_SONNET]"
    by simp
  have fails: "flaky_task GPT4 [] = (RaisesException ''rate limited'', [GPT4])"
    by (simp add: flaky_task_def)
  have answers: "flaky_task CLAUDE_3_OPUS [GPT4] = (Returns ''analysis'', [GPT4, CLAUDE_3_OPUS])"
    by (simp add: flaky_task_def)
  show ?thesis
    using fallback_to_second_model [OF chain fails answers, of call_clock "[]"]
      chain fails answers
    by (simp add: call_clock_def)
qed

end
